theory Spec2Isabelle
  imports Main "HOL-Library.Monad_Syntax"
begin

section \<open>Python values\<close>

text \<open>
  The values that flow through the pipeline are the ones \<^verbatim>\<open>json.loads\<close> produces
  (None, booleans, integers, floats, strings, lists, dictionaries with string keys),
  together with the two sentinel objects the validator meets when it reads a schema's
  field table: \<^verbatim>\<open>Ellipsis\<close> and pydantic's \<^verbatim>\<open>PydanticUndefined\<close>.

  A dictionary is an association list in insertion order with pairwise distinct keys:
  a literal is written with distinct keys and an assignment goes through
  \<open>dict_set\<close>. Text is a HOL string, so a character is a code point below 256.
  A float is carried as the JSON literal that denotes it: its arithmetic is not
  modelled.
\<close>

datatype pyval =
    PNone
  | PBool bool
  | PInt int
  | PFloat string
  | PStr string
  | PList "pyval list"
  | PDict "(string \<times> pyval) list"
  | PEllipsis
  | PUndefined

type_synonym pydict = "(string \<times> pyval) list"

fun dict_set :: "(string \<times> 'v) list \<Rightarrow> string \<Rightarrow> 'v \<Rightarrow> (string \<times> 'v) list" where
  "dict_set [] k v = [(k, v)]"
| "dict_set ((k', v') # kvs) k v =
     (if k' = k then (k, v) # kvs else (k', v') # dict_set kvs k v)"

definition dict_get :: "(string \<times> 'v) list \<Rightarrow> string \<Rightarrow> 'v \<Rightarrow> 'v" where
  "dict_get d k dflt = (case map_of d k of Some v \<Rightarrow> v | None \<Rightarrow> dflt)"

definition dict_has :: "(string \<times> 'v) list \<Rightarrow> string \<Rightarrow> bool" where
  "dict_has d k = (map_of d k \<noteq> None)"

subsection \<open>Truth value of an object\<close>

definition code :: "char \<Rightarrow> nat" where
  "code c = of_char c"

definition is_digit :: "char \<Rightarrow> bool" where
  "is_digit c = (48 \<le> code c \<and> code c \<le> 57)"

text \<open>
  A float is false exactly when it is zero. The literal denotes zero when its mantissa
  (the part before the exponent) has no digit other than 0; \<^verbatim>\<open>NaN\<close> and the
  infinities have no digits and are true. (A literal that underflows to zero, such as
  \<^verbatim>\<open>1e-999\<close>, is outside what the literal representation captures.)
\<close>

definition float_nonzero :: "string \<Rightarrow> bool" where
  "float_nonzero lit =
     (let mant = takeWhile (\<lambda>c. c \<noteq> CHR ''e'' \<and> c \<noteq> CHR ''E'') lit
      in list_all (\<lambda>c. \<not> is_digit c) lit \<or> list_ex (\<lambda>c. is_digit c \<and> c \<noteq> CHR ''0'') mant)"

fun truthy :: "pyval \<Rightarrow> bool" where
  "truthy PNone = False"
| "truthy (PBool b) = b"
| "truthy (PInt i) = (i \<noteq> 0)"
| "truthy (PFloat lit) = float_nonzero lit"
| "truthy (PStr s) = (s \<noteq> [])"
| "truthy (PList xs) = (xs \<noteq> [])"
| "truthy (PDict kvs) = (kvs \<noteq> [])"
| "truthy PEllipsis = True"
| "truthy PUndefined = True"

subsection \<open>\<^verbatim>\<open>str()\<close> and \<^verbatim>\<open>repr()\<close>\<close>

fun digit_char :: "nat \<Rightarrow> char" where
  "digit_char n = char_of (48 + n)"

fun nat_str :: "nat \<Rightarrow> string" where
  "nat_str n = (if n < 10 then [digit_char n] else nat_str (n div 10) @ [digit_char (n mod 10)])"

definition int_str :: "int \<Rightarrow> string" where
  "int_str i = (if i < 0 then CHR ''-'' # nat_str (nat (- i)) else nat_str (nat i))"

definition hex_char :: "nat \<Rightarrow> char" where
  "hex_char n = (if n < 10 then digit_char n else char_of (97 + (n - 10)))"

definition printable :: "char \<Rightarrow> bool" where
  "printable c = (let n = code c in
     \<not> (n < 32 \<or> n = 127 \<or> (128 \<le> n \<and> n \<le> 160) \<or> n = 173))"

definition repr_char :: "char \<Rightarrow> char \<Rightarrow> string" where
  "repr_char q c =
     (if c = q \<or> c = CHR 0x5C then [CHR 0x5C, c]
      else if c = CHR 0x0A then [CHR 0x5C, CHR ''n'']
      else if c = CHR 0x0D then [CHR 0x5C, CHR ''r'']
      else if c = CHR 0x09 then [CHR 0x5C, CHR ''t'']
      else if \<not> printable c then
        [CHR 0x5C, CHR ''x'', hex_char (code c div 16), hex_char (code c mod 16)]
      else [c])"

definition repr_str :: "string \<Rightarrow> string" where
  "repr_str s =
     (let q = (if CHR 0x27 \<in> set s \<and> CHR 0x22 \<notin> set s then CHR 0x22 else CHR 0x27)
      in q # concat (map (repr_char q) s) @ [q])"

fun join :: "string \<Rightarrow> string list \<Rightarrow> string" where
  "join sep [] = []"
| "join sep [x] = x"
| "join sep (x # y # ys) = x @ sep @ join sep (y # ys)"

text \<open>
  \<^verbatim>\<open>repr(v)\<close>. A float prints as the literal that denotes it (Python prints the
  shortest decimal that reads back as the same float).
\<close>

fun py_repr :: "pyval \<Rightarrow> string" where
  "py_repr PNone = ''None''"
| "py_repr (PBool b) = (if b then ''True'' else ''False'')"
| "py_repr (PInt i) = int_str i"
| "py_repr (PFloat lit) = lit"
| "py_repr (PStr s) = repr_str s"
| "py_repr (PList xs) = ''['' @ join '', '' (map py_repr xs) @ '']''"
| "py_repr (PDict kvs) =
     ''{'' @ join '', '' (map (\<lambda>kv. repr_str (fst kv) @ '': '' @ py_repr (snd kv)) kvs) @ ''}''"
| "py_repr PEllipsis = ''Ellipsis''"
| "py_repr PUndefined = ''PydanticUndefined''"

text \<open>\<^verbatim>\<open>str(v)\<close>, also what an f-string substitutes for \<^verbatim>\<open>{v}\<close>.\<close>

definition py_str :: "pyval \<Rightarrow> string" where
  "py_str v = (case v of PStr s \<Rightarrow> s | _ \<Rightarrow> py_repr v)"

section \<open>The standard library: \<^verbatim>\<open>str.strip\<close> and \<^verbatim>\<open>json.loads\<close>\<close>

text \<open>The characters \<^verbatim>\<open>str.strip()\<close> removes (those for which \<^verbatim>\<open>str.isspace\<close> holds).\<close>

definition py_space :: "char \<Rightarrow> bool" where
  "py_space c = (let n = code c in
     (9 \<le> n \<and> n \<le> 13) \<or> (28 \<le> n \<and> n \<le> 32) \<or> n = 133 \<or> n = 160)"

definition strip :: "string \<Rightarrow> string" where
  "strip s = rev (dropWhile py_space (rev (dropWhile py_space s)))"

subsection \<open>Scanning JSON tokens\<close>

datatype token = LBrace | RBrace | LBrack | RBrack | Colon | Comma | Scalar pyval

definition json_ws :: "char \<Rightarrow> bool" where
  "json_ws c = (c = CHR '' '' \<or> c = CHR 0x09 \<or> c = CHR 0x0A \<or> c = CHR 0x0D)"

definition hex_val :: "char \<Rightarrow> nat option" where
  "hex_val c = (let n = code c in
     if 48 \<le> n \<and> n \<le> 57 then Some (n - 48)
     else if 97 \<le> n \<and> n \<le> 102 then Some (n - 87)
     else if 65 \<le> n \<and> n \<le> 70 then Some (n - 55)
     else None)"

text \<open>
  A \<^verbatim>\<open>\uXXXX\<close> escape denotes a code point; one that is not a character of the
  model (256 and above, a half of a surrogate pair included) is replaced by a question
  mark.
\<close>

definition unicode_escape :: "char \<Rightarrow> char \<Rightarrow> char \<Rightarrow> char \<Rightarrow> char option" where
  "unicode_escape a b c d =
     (case (hex_val a, hex_val b, hex_val c, hex_val d) of
        (Some w, Some x, Some y, Some z) \<Rightarrow>
          (let n = ((w * 16 + x) * 16 + y) * 16 + z
           in Some (if n < 256 then char_of n else CHR ''?''))
      | _ \<Rightarrow> None)"

definition simple_escape :: "char \<Rightarrow> char option" where
  "simple_escape c =
     (if c = CHR 0x22 \<or> c = CHR 0x5C \<or> c = CHR ''/'' then Some c
      else if c = CHR ''b'' then Some (CHR 0x08)
      else if c = CHR ''f'' then Some (CHR 0x0C)
      else if c = CHR ''n'' then Some (CHR 0x0A)
      else if c = CHR ''r'' then Some (CHR 0x0D)
      else if c = CHR ''t'' then Some (CHR 0x09)
      else None)"

text \<open>
  The body of a string literal, after the opening quote: the decoded text and what
  follows the closing quote. A raw control character or a bad escape is an error.
\<close>

fun scan_string :: "string \<Rightarrow> (string \<times> string) option" where
  "scan_string [] = None"
| "scan_string (c # cs) =
     (if c = CHR 0x22 then Some ([], cs)
      else if c = CHR 0x5C then
        (case cs of
           [] \<Rightarrow> None
         | e # es \<Rightarrow>
             if e = CHR ''u'' then
               (case es of
                  a # b # c' # d # rest \<Rightarrow>
                    (case unicode_escape a b c' d of
                       None \<Rightarrow> None
                     | Some ch \<Rightarrow> map_option (\<lambda>(s, r). (ch # s, r)) (scan_string rest))
                | _ \<Rightarrow> None)
             else
               (case simple_escape e of
                  None \<Rightarrow> None
                | Some ch \<Rightarrow> map_option (\<lambda>(s, r). (ch # s, r)) (scan_string es)))
      else if code c < 32 then None
      else map_option (\<lambda>(s, r). (c # s, r)) (scan_string cs))"

definition digits_val :: "string \<Rightarrow> nat" where
  "digits_val ds = foldl (\<lambda>a d. 10 * a + (code d - 48)) 0 ds"

text \<open>
  A number, by the pattern
  \<^verbatim>\<open>(-?(?:0|[1-9][0-9]*))(\.[0-9]+)?([eE][-+]?[0-9]+)?\<close>:
  an integer when neither fraction nor exponent is there, a float otherwise.
\<close>

definition scan_frac :: "string \<Rightarrow> string \<times> string" where
  "scan_frac cs =
     (case cs of
        d # ds \<Rightarrow>
          if d = CHR ''.'' \<and> takeWhile is_digit ds \<noteq> []
          then (d # takeWhile is_digit ds, dropWhile is_digit ds) else ([], cs)
      | [] \<Rightarrow> ([], cs))"

definition scan_exp :: "string \<Rightarrow> string \<times> string" where
  "scan_exp cs =
     (case cs of
        e # es \<Rightarrow>
          if e = CHR ''e'' \<or> e = CHR ''E'' then
            (let (sg, ds) = (case es of
                               [] \<Rightarrow> ([], es)
                             | x # xs \<Rightarrow> if x = CHR ''-'' \<or> x = CHR ''+'' then ([x], xs) else ([], es))
             in if takeWhile is_digit ds \<noteq> []
                then (e # sg @ takeWhile is_digit ds, dropWhile is_digit ds) else ([], cs))
          else ([], cs)
      | [] \<Rightarrow> ([], cs))"

definition scan_number :: "string \<Rightarrow> (pyval \<times> string) option" where
  "scan_number cs =
     (let (neg, cs1) = (case cs of [] \<Rightarrow> (False, cs)
                                 | c # r \<Rightarrow> if c = CHR ''-'' then (True, r) else (False, cs));
          ip = (case cs1 of [] \<Rightarrow> []
                          | c # r \<Rightarrow> if c = CHR ''0'' then [c] else takeWhile is_digit cs1);
          cs2 = drop (length ip) cs1;
          (fr, cs3) = scan_frac cs2;
          (ex, cs4) = scan_exp cs3
      in if ip = [] then None
         else if fr = [] \<and> ex = [] then
           Some (PInt (if neg then - int (digits_val ip) else int (digits_val ip)), cs4)
         else Some (PFloat ((if neg then ''-'' else []) @ ip @ fr @ ex), cs4))"

text \<open>The words: the three JSON literals and the float names Python also accepts.\<close>

definition scan_word :: "string \<Rightarrow> (pyval \<times> string) option" where
  "scan_word cs =
     (if take 4 cs = ''null'' then Some (PNone, drop 4 cs)
      else if take 4 cs = ''true'' then Some (PBool True, drop 4 cs)
      else if take 5 cs = ''false'' then Some (PBool False, drop 5 cs)
      else if take 3 cs = ''NaN'' then Some (PFloat ''NaN'', drop 3 cs)
      else if take 8 cs = ''Infinity'' then Some (PFloat ''Infinity'', drop 8 cs)
      else if take 9 cs = ''-Infinity'' then Some (PFloat ''-Infinity'', drop 9 cs)
      else None)"

definition scan_scalar :: "string \<Rightarrow> (pyval \<times> string) option" where
  "scan_scalar cs =
     (case cs of
        [] \<Rightarrow> None
      | c # r \<Rightarrow>
          if c = CHR 0x22 then map_option (\<lambda>(s, rest). (PStr s, rest)) (scan_string r)
          else (case scan_number cs of Some x \<Rightarrow> Some x | None \<Rightarrow> scan_word cs))"

fun tokens :: "string \<Rightarrow> token list option" where
  "tokens [] = Some []"
| "tokens (c # cs) =
     (if json_ws c then tokens cs
      else if c = CHR ''{'' then map_option ((#) LBrace) (tokens cs)
      else if c = CHR ''}'' then map_option ((#) RBrace) (tokens cs)
      else if c = CHR ''['' then map_option ((#) LBrack) (tokens cs)
      else if c = CHR '']'' then map_option ((#) RBrack) (tokens cs)
      else if c = CHR '':'' then map_option ((#) Colon) (tokens cs)
      else if c = CHR '','' then map_option ((#) Comma) (tokens cs)
      else (case scan_scalar (c # cs) of
              None \<Rightarrow> None
            | Some (v, rest) \<Rightarrow>
                if length rest \<le> length cs
                then map_option ((#) (Scalar v)) (tokens rest) else None))"

subsection \<open>Parsing the token sequence\<close>

text \<open>
  The parser keeps the containers that are still open on a stack. A list frame holds
  the items read so far; a dictionary frame holds the entries read so far and the key
  whose value is awaited. A key that occurs twice keeps its first position and its last
  value, as in a Python dictionary.
\<close>

datatype frame = InList "pyval list" | InDict pydict "string option"

datatype expect =
    Value          \<comment> \<open>a value must follow\<close>
  | FirstItem      \<comment> \<open>after \<^verbatim>\<open>[\<close>: a value or \<^verbatim>\<open>]\<close>\<close>
  | FirstKey       \<comment> \<open>after \<^verbatim>\<open>{\<close>: a key or \<^verbatim>\<open>}\<close>\<close>
  | Key            \<comment> \<open>after a comma inside a dictionary\<close>
  | KeyColon       \<comment> \<open>after a key\<close>
  | Separator      \<comment> \<open>after a value inside a container\<close>
  | Finished pyval \<comment> \<open>the outermost value is complete\<close>

fun complete :: "pyval \<Rightarrow> frame list \<Rightarrow> (expect \<times> frame list) option" where
  "complete v [] = Some (Finished v, [])"
| "complete v (InList xs # st) = Some (Separator, InList (xs @ [v]) # st)"
| "complete v (InDict kvs (Some k) # st) = Some (Separator, InDict (dict_set kvs k v) None # st)"
| "complete v (InDict kvs None # st) = None"

fun parse :: "expect \<Rightarrow> frame list \<Rightarrow> token list \<Rightarrow> pyval option" where
  "parse (Finished v) st [] = Some v"
| "parse (Finished v) st (t # ts) = None"
| "parse e st [] = None"
| "parse Value st (Scalar v # ts) =
     (case complete v st of None \<Rightarrow> None | Some (e, st') \<Rightarrow> parse e st' ts)"
| "parse Value st (LBrack # ts) = parse FirstItem (InList [] # st) ts"
| "parse Value st (LBrace # ts) = parse FirstKey (InDict [] None # st) ts"
| "parse Value st (t # ts) = None"
| "parse FirstItem (InList xs # st) (RBrack # ts) =
     (case complete (PList xs) st of None \<Rightarrow> None | Some (e, st') \<Rightarrow> parse e st' ts)"
| "parse FirstItem st (Scalar v # ts) =
     (case complete v st of None \<Rightarrow> None | Some (e, st') \<Rightarrow> parse e st' ts)"
| "parse FirstItem st (LBrack # ts) = parse FirstItem (InList [] # st) ts"
| "parse FirstItem st (LBrace # ts) = parse FirstKey (InDict [] None # st) ts"
| "parse FirstItem st (t # ts) = None"
| "parse FirstKey (InDict kvs None # st) (RBrace # ts) =
     (case complete (PDict kvs) st of None \<Rightarrow> None | Some (e, st') \<Rightarrow> parse e st' ts)"
| "parse FirstKey (InDict kvs None # st) (Scalar (PStr k) # ts) =
     parse KeyColon (InDict kvs (Some k) # st) ts"
| "parse FirstKey st (t # ts) = None"
| "parse Key (InDict kvs None # st) (Scalar (PStr k) # ts) =
     parse KeyColon (InDict kvs (Some k) # st) ts"
| "parse Key st (t # ts) = None"
| "parse KeyColon st (Colon # ts) = parse Value st ts"
| "parse KeyColon st (t # ts) = None"
| "parse Separator (InList xs # st) (Comma # ts) = parse Value (InList xs # st) ts"
| "parse Separator (InList xs # st) (RBrack # ts) =
     (case complete (PList xs) st of None \<Rightarrow> None | Some (e, st') \<Rightarrow> parse e st' ts)"
| "parse Separator (InDict kvs None # st) (Comma # ts) = parse Key (InDict kvs None # st) ts"
| "parse Separator (InDict kvs None # st) (RBrace # ts) =
     (case complete (PDict kvs) st of None \<Rightarrow> None | Some (e, st') \<Rightarrow> parse e st' ts)"
| "parse Separator st (t # ts) = None"

text \<open>
  \<^verbatim>\<open>json.loads(s)\<close>: the value, or \<open>None\<close> where it raises
  \<^verbatim>\<open>json.JSONDecodeError\<close>, the one exception it raises on a string.
\<close>

definition json_loads :: "string \<Rightarrow> pyval option" where
  "json_loads s = (case tokens s of None \<Rightarrow> None | Some ts \<Rightarrow> parse Value [] ts)"

section \<open>The standard library: regular expressions\<close>

text \<open>
  The constructs the program's two patterns use: a character set, concatenation, the
  greedy \<^verbatim>\<open>?\<close> and \<^verbatim>\<open>*\<close>, the lazy \<^verbatim>\<open>*?\<close>, and one capturing group.
\<close>

datatype re =
    Eps
  | Cls "char \<Rightarrow> bool"
  | Seq re re
  | Opt re
  | Star re
  | Lazy re
  | Group re

definition Chr :: "char \<Rightarrow> re" where
  "Chr c = Cls (\<lambda>x. x = c)"

definition seq :: "re list \<Rightarrow> re" where
  "seq rs = foldr Seq rs Eps"

definition lit :: "string \<Rightarrow> re" where
  "lit s = seq (map Chr s)"

text \<open>
  A backtracking matcher. \<open>rmatch r cs g k\<close> matches \<open>r\<close> at the start of \<open>cs\<close>
  and hands the rest of the text and the group's capture to the continuation \<open>k\<close>;
  when the continuation fails, the next alternative is tried, in the order of the
  \<^verbatim>\<open>re\<close> module: a greedy construct tries to take more first, a lazy one less.

  The first argument of the two loops bounds the number of iterations by the length of
  the text: an iteration that consumes nothing is not repeated, so the bound is never
  reached before the text is used up.
\<close>

type_synonym 'a cont = "string \<Rightarrow> string option \<Rightarrow> 'a option"

primrec star_greedy ::
    "nat \<Rightarrow> (string \<Rightarrow> string option \<Rightarrow> 'a cont \<Rightarrow> 'a option)
         \<Rightarrow> string \<Rightarrow> string option \<Rightarrow> 'a cont \<Rightarrow> 'a option" where
  "star_greedy 0 m cs g k = k cs g"
| "star_greedy (Suc n) m cs g k =
     (case m cs g (\<lambda>r g'. if length r < length cs then star_greedy n m r g' k else None) of
        Some x \<Rightarrow> Some x
      | None \<Rightarrow> k cs g)"

primrec star_lazy ::
    "nat \<Rightarrow> (string \<Rightarrow> string option \<Rightarrow> 'a cont \<Rightarrow> 'a option)
         \<Rightarrow> string \<Rightarrow> string option \<Rightarrow> 'a cont \<Rightarrow> 'a option" where
  "star_lazy 0 m cs g k = k cs g"
| "star_lazy (Suc n) m cs g k =
     (case k cs g of
        Some x \<Rightarrow> Some x
      | None \<Rightarrow> m cs g (\<lambda>r g'. if length r < length cs then star_lazy n m r g' k else None))"

primrec rmatch :: "re \<Rightarrow> string \<Rightarrow> string option \<Rightarrow> 'a cont \<Rightarrow> 'a option" where
  "rmatch Eps = (\<lambda>cs g k. k cs g)"
| "rmatch (Cls P) = (\<lambda>cs g k. case cs of [] \<Rightarrow> None | c # r \<Rightarrow> if P c then k r g else None)"
| "rmatch (Seq a b) = (\<lambda>cs g k. rmatch a cs g (\<lambda>r g'. rmatch b r g' k))"
| "rmatch (Opt a) = (\<lambda>cs g k. case rmatch a cs g k of Some x \<Rightarrow> Some x | None \<Rightarrow> k cs g)"
| "rmatch (Star a) = (\<lambda>cs g k. star_greedy (length cs) (rmatch a) cs g k)"
| "rmatch (Lazy a) = (\<lambda>cs g k. star_lazy (length cs) (rmatch a) cs g k)"
| "rmatch (Group a) =
     (\<lambda>cs g k. rmatch a cs g (\<lambda>r g'. k r (Some (take (length cs - length r) cs))))"

text \<open>
  A match at the start of the text: what \<^verbatim>\<open>re.findall\<close> reports for it (the
  group when the pattern has one, the matched text otherwise) and the rest of the text.
\<close>

definition match_here :: "re \<Rightarrow> string \<Rightarrow> (string \<times> string) option" where
  "match_here r cs =
     rmatch r cs None
       (\<lambda>rest g. Some (case g of Some x \<Rightarrow> x | None \<Rightarrow> take (length cs - length rest) cs, rest))"

text \<open>
  \<^verbatim>\<open>re.findall(pattern, text, re.DOTALL)\<close>: the matches from left to right, the
  search resuming where the last match ended. (Neither pattern of the program matches
  the empty string; after an empty match the search moves on by one character.)
\<close>

fun findall :: "re \<Rightarrow> string \<Rightarrow> string list" where
  "findall r [] = (case match_here r [] of Some (m, rest) \<Rightarrow> [m] | None \<Rightarrow> [])"
| "findall r (c # cs) =
     (case match_here r (c # cs) of
        Some (m, rest) \<Rightarrow>
          m # (if length rest \<le> length cs then findall r rest else findall r cs)
      | None \<Rightarrow> findall r cs)"

section \<open>\<^verbatim>\<open>src/utils/json_parse.py\<close>: the extractor\<close>

definition space :: re where
  "space = Cls py_space"

definition is_nb :: "char \<Rightarrow> bool" where
  "is_nb c = (c \<noteq> CHR ''{'' \<and> c \<noteq> CHR ''}'')"

definition not_brace :: re where
  "not_brace = Cls is_nb"

text \<open>\<^verbatim>\<open>```(?:json)?\s*(\{.*?\})\s*```\<close>\<close>

definition json_block_pattern :: re where
  "json_block_pattern =
     seq [lit ''```'', Opt (lit ''json''), Star space,
          Group (seq [Chr CHR ''{'', Lazy (Cls (\<lambda>c. True)), Chr CHR ''}'']),
          Star space, lit ''```'']"

text \<open>\<^verbatim>\<open>\{[^{}]*(?:\{[^{}]*\}[^{}]*)*\}\<close>\<close>

definition json_pattern :: re where
  "json_pattern =
     seq [Chr CHR ''{'', Star not_brace,
          Star (seq [Chr CHR ''{'', Star not_brace, Chr CHR ''}'', Star not_brace]),
          Chr CHR ''}'']"

text \<open>The loop over the matches of the third step: the first one that parses.\<close>

fun first_parsed :: "string list \<Rightarrow> pyval" where
  "first_parsed [] = PNone"
| "first_parsed (m # ms) = (case json_loads m of Some v \<Rightarrow> v | None \<Rightarrow> first_parsed ms)"

definition extract_json :: "string \<Rightarrow> pyval" where
  "extract_json text =
     (case json_loads (strip text) of
        Some v \<Rightarrow> v
      | None \<Rightarrow>
          (case (case findall json_block_pattern text of
                   [] \<Rightarrow> None
                 | m # ms \<Rightarrow> json_loads m) of
             Some v \<Rightarrow> v
           | None \<Rightarrow> first_parsed (findall json_pattern text)))"

section \<open>The pydantic library: fields, validation, construction\<close>

datatype exn = TypeError | ValidationError | TransportError

text \<open>The annotations that occur in \<^verbatim>\<open>schemas.py\<close>.\<close>

datatype ann = AStr | AAny | ANoneType | AList ann | ADict ann ann | AOptionalStr

datatype origin = OList | ODict | OUnion

text \<open>
  \<^verbatim>\<open>__origin__\<close> and \<^verbatim>\<open>__args__\<close>: the classes \<^verbatim>\<open>str\<close>, \<^verbatim>\<open>Any\<close> and
  \<^verbatim>\<open>NoneType\<close> have neither; \<^verbatim>\<open>Optional[str]\<close> is \<^verbatim>\<open>Union[str, None]\<close>.
\<close>

fun ann_origin :: "ann \<Rightarrow> origin option" where
  "ann_origin (AList a) = Some OList"
| "ann_origin (ADict k v) = Some ODict"
| "ann_origin AOptionalStr = Some OUnion"
| "ann_origin a = None"

fun ann_args :: "ann \<Rightarrow> ann list" where
  "ann_args (AList a) = [a]"
| "ann_args (ADict k v) = [k, v]"
| "ann_args AOptionalStr = [AStr, ANoneType]"
| "ann_args a = []"

text \<open>
  What the library stores for a declared field. The default of a field declared
  without one (a required field) is the sentinel \<^verbatim>\<open>PydanticUndefined\<close>; no
  stage schema uses a default factory.
\<close>

record field_info =
  annotation :: ann
  dflt :: pyval
  default_factory :: "pyval option"

definition required :: "ann \<Rightarrow> field_info" where
  "required a = \<lparr>annotation = a, dflt = PUndefined, default_factory = None\<rparr>"

definition with_default :: "ann \<Rightarrow> pyval \<Rightarrow> field_info" where
  "with_default a d = \<lparr>annotation = a, dflt = d, default_factory = None\<rparr>"

subsection \<open>Validating one value against an annotation\<close>

text \<open>
  In the library's default (lax) mode a string field takes a string only, a list field
  a list whose items validate, a dictionary field a dictionary whose values validate;
  \<^verbatim>\<open>Any\<close> takes every object as it is.
\<close>

definition v_str :: "pyval \<Rightarrow> string option" where
  "v_str v = (case v of PStr s \<Rightarrow> Some s | _ \<Rightarrow> None)"

definition v_any :: "pyval \<Rightarrow> pyval option" where
  "v_any v = Some v"

definition v_list :: "(pyval \<Rightarrow> 'a option) \<Rightarrow> pyval \<Rightarrow> 'a list option" where
  "v_list val v = (case v of PList xs \<Rightarrow> those (map val xs) | _ \<Rightarrow> None)"

definition v_dict :: "(pyval \<Rightarrow> 'a option) \<Rightarrow> pyval \<Rightarrow> (string \<times> 'a) list option" where
  "v_dict val v =
     (case v of
        PDict kvs \<Rightarrow> those (map (\<lambda>(k, x). map_option (Pair k) (val x)) kvs)
      | _ \<Rightarrow> None)"

definition v_optional :: "(pyval \<Rightarrow> 'a option) \<Rightarrow> pyval \<Rightarrow> 'a option option" where
  "v_optional val v = (case v of PNone \<Rightarrow> Some None | _ \<Rightarrow> map_option Some (val v))"

text \<open>
  One field of a model under construction: the keyword argument when it is given
  (validated), the declared default when it is not, an error when there is neither.
\<close>

definition field :: "pydict \<Rightarrow> string \<Rightarrow> (pyval \<Rightarrow> 'a option) \<Rightarrow> 'a option \<Rightarrow> 'a option" where
  "field kw name val d = (case map_of kw name of Some v \<Rightarrow> val v | None \<Rightarrow> d)"

text \<open>
  A model class, as the validator uses it: its field table (\<^verbatim>\<open>model_fields\<close>) and
  its constructor from keyword arguments, which yields \<open>None\<close> where the library
  raises \<^verbatim>\<open>ValidationError\<close>. Keyword arguments that name no field are ignored.
\<close>

record 'a schema =
  model_fields :: "(string \<times> field_info) list"
  construct :: "pydict \<Rightarrow> 'a option"

text \<open>
  \<^verbatim>\<open>schema(**data)\<close>: unpacking anything but a mapping raises \<^verbatim>\<open>TypeError\<close>.
\<close>

definition call_schema :: "'a schema \<Rightarrow> pyval \<Rightarrow> exn + 'a" where
  "call_schema schema data =
     (case data of
        PDict kw \<Rightarrow> (case construct schema kw of Some m \<Rightarrow> Inr m | None \<Rightarrow> Inl ValidationError)
      | _ \<Rightarrow> Inl TypeError)"

section \<open>\<^verbatim>\<open>src/schemas.py\<close>\<close>

record ClientInput =
  business :: string
  industry :: string
  goal :: string
  constraints :: string
  additional_context :: "string option"

record DiscoveryOutput =
  problem_statement :: string
  key_assumptions :: "string list"
  facts_gathered :: "string list"
  questions_clarified :: "string list"
  business_model :: string
  target_market :: string

record MarketAnalysis =
  competitors :: "pydict list"
  competitor_map :: pydict
  differentiation_opportunities :: "string list"
  positioning_strategy :: string
  market_size :: "string option"
  market_trends :: "string list"

record StrategyOutput =
  strategic_options :: "pydict list"
  tradeoffs :: pydict
  recommendation :: string
  rationale :: string
  success_metrics :: "string list"

record ExecutionPlan =
  plan_30_days :: "(string \<times> string) list list"
  plan_60_days :: "(string \<times> string) list list"
  plan_90_days :: "(string \<times> string) list list"
  process_improvements :: "string list"
  org_changes :: "string list"
  resource_requirements :: pydict

record FinancialModel =
  unit_economics :: pydict
  pricing_strategy :: string
  revenue_projections :: pydict
  cost_structure :: pydict
  roi_model :: pydict
  break_even_analysis :: pydict

record RiskAnalysis =
  risks :: "pydict list"
  mitigations :: "pydict list"
  compliance_flags :: "string list"
  legal_considerations :: "string list"

record KPIMetrics =
  revenue_metrics :: pydict
  operational_metrics :: pydict
  customer_metrics :: pydict
  financial_metrics :: pydict
  targets :: pydict

definition DiscoveryOutput :: "DiscoveryOutput schema" where
  "DiscoveryOutput =
     \<lparr>model_fields =
        [(''problem_statement'', required AStr),
         (''key_assumptions'', required (AList AStr)),
         (''facts_gathered'', required (AList AStr)),
         (''questions_clarified'', required (AList AStr)),
         (''business_model'', required AStr),
         (''target_market'', required AStr)],
      construct = (\<lambda>kw. do {
        a \<leftarrow> field kw ''problem_statement'' v_str None;
        b \<leftarrow> field kw ''key_assumptions'' (v_list v_str) None;
        c \<leftarrow> field kw ''facts_gathered'' (v_list v_str) None;
        d \<leftarrow> field kw ''questions_clarified'' (v_list v_str) None;
        e \<leftarrow> field kw ''business_model'' v_str None;
        f \<leftarrow> field kw ''target_market'' v_str None;
        Some \<lparr>problem_statement = a, key_assumptions = b, facts_gathered = c,
              questions_clarified = d, business_model = e, target_market = f\<rparr> })\<rparr>"

definition MarketAnalysis :: "MarketAnalysis schema" where
  "MarketAnalysis =
     \<lparr>model_fields =
        [(''competitors'', required (AList (ADict AStr AAny))),
         (''competitor_map'', required (ADict AStr AAny)),
         (''differentiation_opportunities'', required (AList AStr)),
         (''positioning_strategy'', required AStr),
         (''market_size'', with_default AOptionalStr PNone),
         (''market_trends'', with_default (AList AStr) (PList []))],
      construct = (\<lambda>kw. do {
        a \<leftarrow> field kw ''competitors'' (v_list (v_dict v_any)) None;
        b \<leftarrow> field kw ''competitor_map'' (v_dict v_any) None;
        c \<leftarrow> field kw ''differentiation_opportunities'' (v_list v_str) None;
        d \<leftarrow> field kw ''positioning_strategy'' v_str None;
        e \<leftarrow> field kw ''market_size'' (v_optional v_str) (Some None);
        f \<leftarrow> field kw ''market_trends'' (v_list v_str) (Some []);
        Some \<lparr>competitors = a, competitor_map = b, differentiation_opportunities = c,
              positioning_strategy = d, market_size = e, market_trends = f\<rparr> })\<rparr>"

definition StrategyOutput :: "StrategyOutput schema" where
  "StrategyOutput =
     \<lparr>model_fields =
        [(''strategic_options'', required (AList (ADict AStr AAny))),
         (''tradeoffs'', required (ADict AStr AAny)),
         (''recommendation'', required AStr),
         (''rationale'', required AStr),
         (''success_metrics'', required (AList AStr))],
      construct = (\<lambda>kw. do {
        a \<leftarrow> field kw ''strategic_options'' (v_list (v_dict v_any)) None;
        b \<leftarrow> field kw ''tradeoffs'' (v_dict v_any) None;
        c \<leftarrow> field kw ''recommendation'' v_str None;
        d \<leftarrow> field kw ''rationale'' v_str None;
        e \<leftarrow> field kw ''success_metrics'' (v_list v_str) None;
        Some \<lparr>strategic_options = a, tradeoffs = b, recommendation = c, rationale = d,
              success_metrics = e\<rparr> })\<rparr>"

definition ExecutionPlan :: "ExecutionPlan schema" where
  "ExecutionPlan =
     \<lparr>model_fields =
        [(''plan_30_days'', required (AList (ADict AStr AStr))),
         (''plan_60_days'', required (AList (ADict AStr AStr))),
         (''plan_90_days'', required (AList (ADict AStr AStr))),
         (''process_improvements'', required (AList AStr)),
         (''org_changes'', required (AList AStr)),
         (''resource_requirements'', required (ADict AStr AAny))],
      construct = (\<lambda>kw. do {
        a \<leftarrow> field kw ''plan_30_days'' (v_list (v_dict v_str)) None;
        b \<leftarrow> field kw ''plan_60_days'' (v_list (v_dict v_str)) None;
        c \<leftarrow> field kw ''plan_90_days'' (v_list (v_dict v_str)) None;
        d \<leftarrow> field kw ''process_improvements'' (v_list v_str) None;
        e \<leftarrow> field kw ''org_changes'' (v_list v_str) None;
        f \<leftarrow> field kw ''resource_requirements'' (v_dict v_any) None;
        Some \<lparr>plan_30_days = a, plan_60_days = b, plan_90_days = c,
              process_improvements = d, org_changes = e, resource_requirements = f\<rparr> })\<rparr>"

definition FinancialModel :: "FinancialModel schema" where
  "FinancialModel =
     \<lparr>model_fields =
        [(''unit_economics'', required (ADict AStr AAny)),
         (''pricing_strategy'', required AStr),
         (''revenue_projections'', required (ADict AStr AAny)),
         (''cost_structure'', required (ADict AStr AAny)),
         (''roi_model'', required (ADict AStr AAny)),
         (''break_even_analysis'', required (ADict AStr AAny))],
      construct = (\<lambda>kw. do {
        a \<leftarrow> field kw ''unit_economics'' (v_dict v_any) None;
        b \<leftarrow> field kw ''pricing_strategy'' v_str None;
        c \<leftarrow> field kw ''revenue_projections'' (v_dict v_any) None;
        d \<leftarrow> field kw ''cost_structure'' (v_dict v_any) None;
        e \<leftarrow> field kw ''roi_model'' (v_dict v_any) None;
        f \<leftarrow> field kw ''break_even_analysis'' (v_dict v_any) None;
        Some \<lparr>unit_economics = a, pricing_strategy = b, revenue_projections = c,
              cost_structure = d, roi_model = e, break_even_analysis = f\<rparr> })\<rparr>"

definition RiskAnalysis :: "RiskAnalysis schema" where
  "RiskAnalysis =
     \<lparr>model_fields =
        [(''risks'', required (AList (ADict AStr AAny))),
         (''mitigations'', required (AList (ADict AStr AAny))),
         (''compliance_flags'', required (AList AStr)),
         (''legal_considerations'', required (AList AStr))],
      construct = (\<lambda>kw. do {
        a \<leftarrow> field kw ''risks'' (v_list (v_dict v_any)) None;
        b \<leftarrow> field kw ''mitigations'' (v_list (v_dict v_any)) None;
        c \<leftarrow> field kw ''compliance_flags'' (v_list v_str) None;
        d \<leftarrow> field kw ''legal_considerations'' (v_list v_str) None;
        Some \<lparr>risks = a, mitigations = b, compliance_flags = c, legal_considerations = d\<rparr> })\<rparr>"

definition KPIMetrics :: "KPIMetrics schema" where
  "KPIMetrics =
     \<lparr>model_fields =
        [(''revenue_metrics'', required (ADict AStr AAny)),
         (''operational_metrics'', required (ADict AStr AAny)),
         (''customer_metrics'', required (ADict AStr AAny)),
         (''financial_metrics'', required (ADict AStr AAny)),
         (''targets'', required (ADict AStr AAny))],
      construct = (\<lambda>kw. do {
        a \<leftarrow> field kw ''revenue_metrics'' (v_dict v_any) None;
        b \<leftarrow> field kw ''operational_metrics'' (v_dict v_any) None;
        c \<leftarrow> field kw ''customer_metrics'' (v_dict v_any) None;
        d \<leftarrow> field kw ''financial_metrics'' (v_dict v_any) None;
        e \<leftarrow> field kw ''targets'' (v_dict v_any) None;
        Some \<lparr>revenue_metrics = a, operational_metrics = b, customer_metrics = c,
              financial_metrics = d, targets = e\<rparr> })\<rparr>"

section \<open>\<^verbatim>\<open>src/utils/json_parse.py\<close>: the validator\<close>

text \<open>
  The empty value chosen from the annotation, for a missing field whose default is
  \<^verbatim>\<open>Ellipsis\<close> and that has no factory. The test for \<^verbatim>\<open>str\<close> comes first and
  also holds of a generic annotation with \<^verbatim>\<open>str\<close> among its arguments.
\<close>

definition empty_value :: "ann \<Rightarrow> pyval option" where
  "empty_value a =
     (if a = AStr \<or> (ann_origin a \<noteq> None \<and> AStr \<in> set (ann_args a)) then Some (PStr [])
      else if ann_origin a = Some OList then Some (PList [])
      else if ann_origin a = Some ODict then Some (PDict [])
      else None)"

text \<open>The body of the first loop: ensure the field exists.\<close>

definition ensure_field :: "pydict \<Rightarrow> string \<times> field_info \<Rightarrow> pydict" where
  "ensure_field fixed fld =
     (let (field_name, info) = fld in
      if dict_has fixed field_name then fixed
      else if dflt info \<noteq> PEllipsis then dict_set fixed field_name (dflt info)
      else (case default_factory info of
              Some v \<Rightarrow> dict_set fixed field_name v
            | None \<Rightarrow>
                (case empty_value (annotation info) of
                   Some v \<Rightarrow> dict_set fixed field_name v
                 | None \<Rightarrow> fixed)))"

definition is_list :: "pyval \<Rightarrow> bool" where
  "is_list v = (case v of PList xs \<Rightarrow> True | _ \<Rightarrow> False)"

definition is_str :: "pyval \<Rightarrow> bool" where
  "is_str v = (case v of PStr s \<Rightarrow> True | _ \<Rightarrow> False)"

text \<open>
  The body of the second loop: convert the value. Both conversions read the value the
  field had when the iteration began. The only optional annotation is
  \<^verbatim>\<open>Optional[str]\<close>, so the actual type is \<^verbatim>\<open>str\<close>, and \<^verbatim>\<open>str(value)\<close>
  does not raise.
\<close>

definition convert_field :: "pydict \<Rightarrow> string \<times> field_info \<Rightarrow> pydict" where
  "convert_field fixed fld =
     (let (field_name, info) = fld in
      case map_of fixed field_name of
        None \<Rightarrow> fixed
      | Some v \<Rightarrow>
          (let a = annotation info;
               fixed1 = (if ann_origin a = Some OList \<and> \<not> is_list v
                         then dict_set fixed field_name (if truthy v then PList [v] else PList [])
                         else fixed)
           in if ann_origin a \<noteq> None \<and> ANoneType \<in> set (ann_args a)
                 \<and> filter (\<lambda>x. x \<noteq> ANoneType) (ann_args a) \<noteq> []
                 \<and> \<not> is_str v \<and> v \<noteq> PNone
              then dict_set fixed1 field_name (PStr (py_str v))
              else fixed1))"

definition fix_common_issues :: "pydict \<Rightarrow> 'a schema \<Rightarrow> pydict" where
  "fix_common_issues data schema =
     foldl convert_field (foldl ensure_field data (model_fields schema)) (model_fields schema)"

text \<open>
  \<^verbatim>\<open>validate_and_fix_json\<close>. Only \<^verbatim>\<open>ValidationError\<close> is caught, so the
  \<^verbatim>\<open>TypeError\<close> of unpacking a non-mapping leaves the function, and so does the
  \<^verbatim>\<open>ValidationError\<close> of the last construction, which is outside every \<^verbatim>\<open>try\<close>.
\<close>

definition validate_and_fix_json :: "pyval \<Rightarrow> 'a schema \<Rightarrow> bool \<Rightarrow> exn + 'a" where
  "validate_and_fix_json data schema strict =
     (case data of
        PDict d \<Rightarrow>
          (case construct schema d of
             Some m \<Rightarrow> Inr m
           | None \<Rightarrow>
               if strict then Inl ValidationError
               else (case construct schema (fix_common_issues d schema) of
                       Some m \<Rightarrow> Inr m
                     | None \<Rightarrow>
                         call_schema schema
                           (PDict (filter (\<lambda>(k, v). k \<in> set (map fst (model_fields schema))) d))))
      | _ \<Rightarrow> Inl TypeError)"

section \<open>The generation client\<close>

text \<open>
  The client is text in, text out. A backend is a function from the number of calls made
  before, the prompt and the system prompt to the generated text, or to the failure of
  the transport; the call log records every request in order.
\<close>

type_synonym llm = "nat \<Rightarrow> string \<Rightarrow> string \<Rightarrow> exn + string"

type_synonym calls = "(string \<times> string) list"

definition generate :: "llm \<Rightarrow> string \<Rightarrow> string \<Rightarrow> calls \<Rightarrow> (exn + string) \<times> calls" where
  "generate llm prompt system_prompt log =
     (llm (length log) prompt system_prompt, log @ [(prompt, system_prompt)])"

section \<open>\<^verbatim>\<open>src/agents/discovery.py\<close>\<close>

definition additional_context_line :: "ClientInput \<Rightarrow> string" where
  "additional_context_line client_input =
     (case additional_context client_input of
        Some c \<Rightarrow> if c \<noteq> [] then ''**Additional Context**: '' @ c else []
      | None \<Rightarrow> [])"

definition DiscoveryAgent_system_prompt :: string where
  \<open>DiscoveryAgent_system_prompt =
     ''You are a business discovery consultant. Your role is to:\<newline>'' @
     ''1. Clarify the problem statement\<newline>'' @
     ''2. Identify key assumptions\<newline>'' @
     ''3. Gather relevant facts\<newline>'' @
     ''4. Understand the business model\<newline>'' @
     ''5. Identify the target market\<newline>'' @
     ''\<newline>'' @
     ''Respond in a structured format that helps understand the client's situation.''\<close>

definition DiscoveryAgent_prompt :: "ClientInput \<Rightarrow> string" where
  \<open>DiscoveryAgent_prompt client_input =
     ''Analyze the following client information and provide a comprehensive discovery analysis:\<newline>'' @
     ''\<newline>'' @
     ''**Business**: '' @
     (business client_input) @
     ''\<newline>'' @
     ''**Industry**: '' @
     (industry client_input) @
     ''\<newline>'' @
     ''**Goal**: '' @
     (goal client_input) @
     ''\<newline>'' @
     ''**Constraints**: '' @
     (constraints client_input) @
     ''\<newline>'' @
     (additional_context_line client_input) @
     ''\<newline>'' @
     ''\<newline>'' @
     ''Please provide:\<newline>'' @
     ''1. A clear problem statement\<newline>'' @
     ''2. Key assumptions that need validation\<newline>'' @
     ''3. Facts gathered from the information\<newline>'' @
     ''4. Questions that need clarification\<newline>'' @
     ''5. Business model description\<newline>'' @
     ''6. Target market identification\<newline>'' @
     ''\<newline>'' @
     ''Format your response as JSON with the following structure:\<newline>'' @
     ''{\<newline>'' @
     ''    "problem_statement": "Clear statement of the problem",\<newline>'' @
     ''    "key_assumptions": ["assumption1", "assumption2", ...],\<newline>'' @
     ''    "facts_gathered": ["fact1", "fact2", ...],\<newline>'' @
     ''    "questions_clarified": ["question1", "question2", ...],\<newline>'' @
     ''    "business_model": "Description of how the business works",\<newline>'' @
     ''    "target_market": "Description of target market"\<newline>'' @
     ''}''\<close>

definition DiscoveryAgent_parse_fallback :: "string \<Rightarrow> pyval" where
  "DiscoveryAgent_parse_fallback text =
     PDict
       [(''problem_statement'',
           PStr (if text \<noteq> [] then take 200 text else ''Problem to be clarified'')),
        (''key_assumptions'', PList []),
        (''facts_gathered'', PList (if text \<noteq> [] then [PStr text] else [])),
        (''questions_clarified'', PList []),
        (''business_model'', PStr ''To be determined''),
        (''target_market'', PStr ''To be determined'')]"

text \<open>The minimal output built in the handler of \<^verbatim>\<open>except Exception\<close>.\<close>

definition DiscoveryAgent_minimal :: "ClientInput \<Rightarrow> exn + DiscoveryOutput" where
  "DiscoveryAgent_minimal client_input =
     call_schema DiscoveryOutput
       (PDict
          [(''problem_statement'', PStr (goal client_input)),
           (''key_assumptions'', PList []),
           (''facts_gathered'', PList [PStr (business client_input), PStr (industry client_input)]),
           (''questions_clarified'', PList []),
           (''business_model'', PStr (business client_input)),
           (''target_market'', PStr ''To be determined'')])"

definition DiscoveryAgent_analyze ::
    "llm \<Rightarrow> ClientInput \<Rightarrow> calls \<Rightarrow> (exn + DiscoveryOutput) \<times> calls" where
  "DiscoveryAgent_analyze llm client_input log =
     (case generate llm (DiscoveryAgent_prompt client_input) DiscoveryAgent_system_prompt log of
        (Inl e, log') \<Rightarrow> (Inl e, log')
      | (Inr response, log') \<Rightarrow>
          (let data = extract_json response;
               data = (if \<not> truthy data then DiscoveryAgent_parse_fallback response else data)
           in (case validate_and_fix_json data DiscoveryOutput False of
                 Inr m \<Rightarrow> Inr m
               | Inl e \<Rightarrow> DiscoveryAgent_minimal client_input), log'))"

section \<open>\<^verbatim>\<open>src/agents/market.py\<close>\<close>

definition MarketAgent_system_prompt :: string where
  \<open>MarketAgent_system_prompt =
     ''You are a market research and competitive intelligence expert. Your role is to:\<newline>'' @
     ''1. Identify key competitors\<newline>'' @
     ''2. Create a competitor map\<newline>'' @
     ''3. Find differentiation opportunities\<newline>'' @
     ''4. Recommend positioning strategies\<newline>'' @
     ''5. Analyze market size and trends\<newline>'' @
     ''\<newline>'' @
     ''Provide actionable insights based on the business context.''\<close>

definition MarketAgent_prompt :: "ClientInput \<Rightarrow> DiscoveryOutput \<Rightarrow> string" where
  \<open>MarketAgent_prompt client_input discovery =
     ''Conduct a comprehensive market and competitor analysis:\<newline>'' @
     ''\<newline>'' @
     ''**Business**: '' @
     (business client_input) @
     ''\<newline>'' @
     ''**Industry**: '' @
     (industry client_input) @
     ''\<newline>'' @
     ''**Target Market**: '' @
     (target_market discovery) @
     ''\<newline>'' @
     ''**Business Model**: '' @
     (business_model discovery) @
     ''\<newline>'' @
     ''\<newline>'' @
     ''Please provide:\<newline>'' @
     ''1. List of key competitors with their strengths/weaknesses\<newline>'' @
     ''2. A competitor positioning map\<newline>'' @
     ''3. Differentiation opportunities\<newline>'' @
     ''4. Recommended positioning strategy\<newline>'' @
     ''5. Market size estimate (if possible)\<newline>'' @
     ''6. Key market trends\<newline>'' @
     ''\<newline>'' @
     ''Format your response as JSON:\<newline>'' @
     ''{\<newline>'' @
     ''    "competitors": [\<newline>'' @
     ''        {\<newline>'' @
     ''            "name": "Competitor Name",\<newline>'' @
     ''            "strengths": ["strength1", "strength2"],\<newline>'' @
     ''            "weaknesses": ["weakness1", "weakness2"],\<newline>'' @
     ''            "market_position": "description"\<newline>'' @
     ''        }\<newline>'' @
     ''    ],\<newline>'' @
     ''    "competitor_map": {\<newline>'' @
     ''        "dimensions": ["dimension1", "dimension2"],\<newline>'' @
     ''        "positions": {"competitor_name": [x, y]}\<newline>'' @
     ''    },\<newline>'' @
     ''    "differentiation_opportunities": ["opportunity1", "opportunity2", ...],\<newline>'' @
     ''    "positioning_strategy": "Recommended positioning strategy",\<newline>'' @
     ''    "market_size": "Market size estimate or description",\<newline>'' @
     ''    "market_trends": ["trend1", "trend2", ...]\<newline>'' @
     ''}''\<close>

definition MarketAgent_parse_fallback :: "ClientInput \<Rightarrow> DiscoveryOutput \<Rightarrow> pyval" where
  "MarketAgent_parse_fallback client_input discovery =
     PDict
       [(''competitors'', PList []),
        (''competitor_map'', PDict []),
        (''differentiation_opportunities'',
           PList [PStr (''Focus on '' @ industry client_input @ '' expertise''),
                  PStr ''Leverage unique business model'']),
        (''positioning_strategy'',
           PStr (''Position as a '' @ business_model discovery @ '' in '' @ industry client_input)),
        (''market_size'', PStr ''To be researched''),
        (''market_trends'', PList [])]"

definition MarketAgent_minimal :: "exn + MarketAnalysis" where
  "MarketAgent_minimal =
     call_schema MarketAnalysis
       (PDict
          [(''competitors'', PList []),
           (''competitor_map'', PDict []),
           (''differentiation_opportunities'', PList []),
           (''positioning_strategy'', PStr ''To be developed based on market research'')])"

definition MarketAgent_analyze ::
    "llm \<Rightarrow> ClientInput \<Rightarrow> DiscoveryOutput \<Rightarrow> calls \<Rightarrow> (exn + MarketAnalysis) \<times> calls" where
  "MarketAgent_analyze llm client_input discovery log =
     (case generate llm (MarketAgent_prompt client_input discovery) MarketAgent_system_prompt log of
        (Inl e, log') \<Rightarrow> (Inl e, log')
      | (Inr response, log') \<Rightarrow>
          (let data = extract_json response;
               data = (if \<not> truthy data then MarketAgent_parse_fallback client_input discovery
                       else data)
           in (case validate_and_fix_json data MarketAnalysis False of
                 Inr m \<Rightarrow> Inr m
               | Inl e \<Rightarrow> MarketAgent_minimal), log'))"

section \<open>\<^verbatim>\<open>src/agents/strategy.py\<close>\<close>

definition StrategyAgent_system_prompt :: string where
  \<open>StrategyAgent_system_prompt =
     ''You are a strategic business consultant. Your role is to:\<newline>'' @
     ''1. Develop multiple strategic options\<newline>'' @
     ''2. Analyze tradeoffs between options\<newline>'' @
     ''3. Provide a clear recommendation\<newline>'' @
     ''4. Explain the rationale\<newline>'' @
     ''5. Define success metrics\<newline>'' @
     ''\<newline>'' @
     ''Think strategically and consider long-term implications.''\<close>

definition StrategyAgent_prompt :: "ClientInput \<Rightarrow> DiscoveryOutput \<Rightarrow> MarketAnalysis \<Rightarrow> string" where
  \<open>StrategyAgent_prompt client_input discovery market =
     ''Develop strategic recommendations:\<newline>'' @
     ''\<newline>'' @
     ''**Business Goal**: '' @
     (goal client_input) @
     ''\<newline>'' @
     ''**Problem Statement**: '' @
     (problem_statement discovery) @
     ''\<newline>'' @
     ''**Constraints**: '' @
     (constraints client_input) @
     ''\<newline>'' @
     ''**Market Position**: '' @
     (positioning_strategy market) @
     ''\<newline>'' @
     ''**Differentiation Opportunities**: '' @
     (join '', '' (take 3 (differentiation_opportunities market))) @
     ''\<newline>'' @
     ''\<newline>'' @
     ''Please provide:\<newline>'' @
     ''1. 3-5 strategic options with descriptions\<newline>'' @
     ''2. Tradeoffs analysis for each option\<newline>'' @
     ''3. A clear recommendation\<newline>'' @
     ''4. Rationale for the recommendation\<newline>'' @
     ''5. Success metrics to track\<newline>'' @
     ''\<newline>'' @
     ''Format your response as JSON:\<newline>'' @
     ''{\<newline>'' @
     ''    "strategic_options": [\<newline>'' @
     ''        {\<newline>'' @
     ''            "name": "Option Name",\<newline>'' @
     ''            "description": "Detailed description",\<newline>'' @
     ''            "pros": ["pro1", "pro2"],\<newline>'' @
     ''            "cons": ["con1", "con2"],\<newline>'' @
     ''            "feasibility": "high/medium/low",\<newline>'' @
     ''            "impact": "high/medium/low"\<newline>'' @
     ''        }\<newline>'' @
     ''    ],\<newline>'' @
     ''    "tradeoffs": {\<newline>'' @
     ''        "option1_vs_option2": "Comparison description",\<newline>'' @
     ''        "risk_vs_reward": "Analysis"\<newline>'' @
     ''    },\<newline>'' @
     ''    "recommendation": "Recommended strategic option with justification",\<newline>'' @
     ''    "rationale": "Detailed rationale for the recommendation",\<newline>'' @
     ''    "success_metrics": ["metric1", "metric2", ...]\<newline>'' @
     ''}''\<close>

definition StrategyAgent_parse_fallback :: "ClientInput \<Rightarrow> DiscoveryOutput \<Rightarrow> pyval" where
  "StrategyAgent_parse_fallback client_input discovery =
     PDict
       [(''strategic_options'',
           PList
             [PDict
                [(''name'', PStr ''Primary Strategy''),
                 (''description'', PStr (''Focus on '' @ goal client_input)),
                 (''pros'', PList [PStr ''Aligned with goals'']),
                 (''cons'', PList [PStr ''Requires resources'']),
                 (''feasibility'', PStr ''medium''),
                 (''impact'', PStr ''high'')]]),
        (''tradeoffs'', PDict []),
        (''recommendation'', PStr (''Implement strategy to achieve '' @ goal client_input)),
        (''rationale'', PStr (''Addresses '' @ problem_statement discovery)),
        (''success_metrics'', PList [PStr ''Goal achievement'', PStr ''Progress tracking''])]"

definition StrategyAgent_minimal :: "ClientInput \<Rightarrow> DiscoveryOutput \<Rightarrow> exn + StrategyOutput" where
  "StrategyAgent_minimal client_input discovery =
     call_schema StrategyOutput
       (PDict
          [(''strategic_options'', PList []),
           (''tradeoffs'', PDict []),
           (''recommendation'',
              PStr (''Focus on achieving '' @ goal client_input @ '' while addressing ''
                    @ problem_statement discovery)),
           (''rationale'', PStr ''Based on business context and constraints''),
           (''success_metrics'',
              PList [PStr ''Revenue growth'', PStr ''Market share'',
                     PStr ''Customer satisfaction''])])"

definition StrategyAgent_analyze ::
    "llm \<Rightarrow> ClientInput \<Rightarrow> DiscoveryOutput \<Rightarrow> MarketAnalysis \<Rightarrow> calls
       \<Rightarrow> (exn + StrategyOutput) \<times> calls" where
  "StrategyAgent_analyze llm client_input discovery market log =
     (case generate llm (StrategyAgent_prompt client_input discovery market)
             StrategyAgent_system_prompt log of
        (Inl e, log') \<Rightarrow> (Inl e, log')
      | (Inr response, log') \<Rightarrow>
          (let data = extract_json response;
               data = (if \<not> truthy data then StrategyAgent_parse_fallback client_input discovery
                       else data)
           in (case validate_and_fix_json data StrategyOutput False of
                 Inr m \<Rightarrow> Inr m
               | Inl e \<Rightarrow> StrategyAgent_minimal client_input discovery), log'))"

section \<open>\<^verbatim>\<open>src/agents/ops.py\<close>\<close>

definition OpsAgent_system_prompt :: string where
  \<open>OpsAgent_system_prompt =
     ''You are an operations and execution consultant. Your role is to:\<newline>'' @
     ''1. Create actionable 30/60/90 day plans\<newline>'' @
     ''2. Identify process improvements\<newline>'' @
     ''3. Recommend organizational changes\<newline>'' @
     ''4. Define resource requirements\<newline>'' @
     ''\<newline>'' @
     ''Be specific and actionable in your recommendations.''\<close>

definition OpsAgent_prompt :: "ClientInput \<Rightarrow> StrategyOutput \<Rightarrow> string" where
  \<open>OpsAgent_prompt client_input strategy =
     ''Create a detailed execution plan:\<newline>'' @
     ''\<newline>'' @
     ''**Business**: '' @
     (business client_input) @
     ''\<newline>'' @
     ''**Recommended Strategy**: '' @
     (recommendation strategy) @
     ''\<newline>'' @
     ''**Rationale**: '' @
     (rationale strategy) @
     ''\<newline>'' @
     ''**Constraints**: '' @
     (constraints client_input) @
     ''\<newline>'' @
     ''**Success Metrics**: '' @
     (join '', '' (success_metrics strategy)) @
     ''\<newline>'' @
     ''\<newline>'' @
     ''Please provide:\<newline>'' @
     ''1. 30-day action plan with specific tasks\<newline>'' @
     ''2. 60-day action plan with milestones\<newline>'' @
     ''3. 90-day action plan with goals\<newline>'' @
     ''4. Process improvements needed\<newline>'' @
     ''5. Organizational changes required\<newline>'' @
     ''6. Resource requirements (people, budget, tools)\<newline>'' @
     ''\<newline>'' @
     ''Format your response as JSON:\<newline>'' @
     ''{\<newline>'' @
     ''    "plan_30_days": [\<newline>'' @
     ''        {\<newline>'' @
     ''            "task": "Task description",\<newline>'' @
     ''            "owner": "Responsible party",\<newline>'' @
     ''            "priority": "high/medium/low",\<newline>'' @
     ''            "status": "not_started"\<newline>'' @
     ''        }\<newline>'' @
     ''    ],\<newline>'' @
     ''    "plan_60_days": [\<newline>'' @
     ''        {\<newline>'' @
     ''            "task": "Task description",\<newline>'' @
     ''            "owner": "Responsible party",\<newline>'' @
     ''            "priority": "high/medium/low",\<newline>'' @
     ''            "status": "not_started"\<newline>'' @
     ''        }\<newline>'' @
     ''    ],\<newline>'' @
     ''    "plan_90_days": [\<newline>'' @
     ''        {\<newline>'' @
     ''            "task": "Task description",\<newline>'' @
     ''            "owner": "Responsible party",\<newline>'' @
     ''            "priority": "high/medium/low",\<newline>'' @
     ''            "status": "not_started"\<newline>'' @
     ''        }\<newline>'' @
     ''    ],\<newline>'' @
     ''    "process_improvements": ["improvement1", "improvement2", ...],\<newline>'' @
     ''    "org_changes": ["change1", "change2", ...],\<newline>'' @
     ''    "resource_requirements": {\<newline>'' @
     ''        "people": "Description of staffing needs",\<newline>'' @
     ''        "budget": "Budget estimate or description",\<newline>'' @
     ''        "tools": ["tool1", "tool2", ...]\<newline>'' @
     ''    }\<newline>'' @
     ''}''\<close>

definition task :: "string \<Rightarrow> string \<Rightarrow> string \<Rightarrow> pyval" where
  "task what owner priority =
     PDict [(''task'', PStr what), (''owner'', PStr owner), (''priority'', PStr priority),
            (''status'', PStr ''not_started'')]"

definition OpsAgent_parse_fallback :: "StrategyOutput \<Rightarrow> pyval" where
  "OpsAgent_parse_fallback strategy =
     PDict
       [(''plan_30_days'',
           PList [task ''Initiate strategy implementation'' ''Leadership team'' ''high'']),
        (''plan_60_days'', PList [task ''Execute key initiatives'' ''Operations team'' ''high'']),
        (''plan_90_days'',
           PList [task ''Review progress and adjust'' ''Leadership team'' ''medium'']),
        (''process_improvements'',
           PList [PStr ''Streamline operations'', PStr ''Improve efficiency'']),
        (''org_changes'', PList [PStr ''Align team structure with strategy'']),
        (''resource_requirements'',
           PDict [(''people'', PStr ''To be determined''), (''budget'', PStr ''To be determined''),
                  (''tools'', PList [])])]"

definition OpsAgent_minimal :: "exn + ExecutionPlan" where
  "OpsAgent_minimal =
     call_schema ExecutionPlan
       (PDict
          [(''plan_30_days'', PList []), (''plan_60_days'', PList []),
           (''plan_90_days'', PList []), (''process_improvements'', PList []),
           (''org_changes'', PList []), (''resource_requirements'', PDict [])])"

definition OpsAgent_analyze ::
    "llm \<Rightarrow> ClientInput \<Rightarrow> DiscoveryOutput \<Rightarrow> StrategyOutput \<Rightarrow> calls
       \<Rightarrow> (exn + ExecutionPlan) \<times> calls" where
  "OpsAgent_analyze llm client_input discovery strategy log =
     (case generate llm (OpsAgent_prompt client_input strategy) OpsAgent_system_prompt log of
        (Inl e, log') \<Rightarrow> (Inl e, log')
      | (Inr response, log') \<Rightarrow>
          (let data = extract_json response;
               data = (if \<not> truthy data then OpsAgent_parse_fallback strategy else data)
           in (case validate_and_fix_json data ExecutionPlan False of
                 Inr m \<Rightarrow> Inr m
               | Inl e \<Rightarrow> OpsAgent_minimal), log'))"

section \<open>\<^verbatim>\<open>src/agents/finance.py\<close>\<close>

definition FinanceAgent_system_prompt :: string where
  \<open>FinanceAgent_system_prompt =
     ''You are a financial modeling consultant. Your role is to:\<newline>'' @
     ''1. Build unit economics models\<newline>'' @
     ''2. Develop pricing strategies\<newline>'' @
     ''3. Create revenue projections\<newline>'' @
     ''4. Analyze cost structures\<newline>'' @
     ''5. Calculate ROI and break-even points\<newline>'' @
     ''\<newline>'' @
     ''Even if data is limited, provide reasonable estimates and assumptions.''\<close>

definition FinanceAgent_prompt :: "ClientInput \<Rightarrow> DiscoveryOutput \<Rightarrow> StrategyOutput \<Rightarrow> string" where
  \<open>FinanceAgent_prompt client_input discovery strategy =
     ''Build a financial model:\<newline>'' @
     ''\<newline>'' @
     ''**Business**: '' @
     (business client_input) @
     ''\<newline>'' @
     ''**Business Model**: '' @
     (business_model discovery) @
     ''\<newline>'' @
     ''**Target Market**: '' @
     (target_market discovery) @
     ''\<newline>'' @
     ''**Strategy**: '' @
     (recommendation strategy) @
     ''\<newline>'' @
     ''**Constraints**: '' @
     (constraints client_input) @
     ''\<newline>'' @
     ''\<newline>'' @
     ''Please provide:\<newline>'' @
     ''1. Unit economics (CAC, LTV, margins, etc.)\<newline>'' @
     ''2. Pricing strategy recommendations\<newline>'' @
     ''3. Revenue projections (monthly/quarterly/annual)\<newline>'' @
     ''4. Cost structure breakdown\<newline>'' @
     ''5. ROI model with assumptions\<newline>'' @
     ''6. Break-even analysis\<newline>'' @
     ''\<newline>'' @
     ''Format your response as JSON:\<newline>'' @
     ''{\<newline>'' @
     ''    "unit_economics": {\<newline>'' @
     ''        "customer_acquisition_cost": "CAC estimate or description",\<newline>'' @
     ''        "lifetime_value": "LTV estimate or description",\<newline>'' @
     ''        "gross_margin": "Margin percentage or description",\<newline>'' @
     ''        "contribution_margin": "Margin description"\<newline>'' @
     ''    },\<newline>'' @
     ''    "pricing_strategy": "Recommended pricing approach",\<newline>'' @
     ''    "revenue_projections": {\<newline>'' @
     ''        "month_1": "Revenue estimate",\<newline>'' @
     ''        "month_3": "Revenue estimate",\<newline>'' @
     ''        "month_6": "Revenue estimate",\<newline>'' @
     ''        "year_1": "Revenue estimate"\<newline>'' @
     ''    },\<newline>'' @
     ''    "cost_structure": {\<newline>'' @
     ''        "fixed_costs": "Description of fixed costs",\<newline>'' @
     ''        "variable_costs": "Description of variable costs",\<newline>'' @
     ''        "cost_breakdown": "Detailed breakdown"\<newline>'' @
     ''    },\<newline>'' @
     ''    "roi_model": {\<newline>'' @
     ''        "investment": "Required investment",\<newline>'' @
     ''        "expected_return": "Expected return",\<newline>'' @
     ''        "roi": "ROI percentage or description",\<newline>'' @
     ''        "payback_period": "Payback period estimate",\<newline>'' @
     ''        "assumptions": ["assumption1", "assumption2"]\<newline>'' @
     ''    },\<newline>'' @
     ''    "break_even_analysis": {\<newline>'' @
     ''        "break_even_point": "Break-even point description",\<newline>'' @
     ''        "break_even_timeline": "Timeline to break even",\<newline>'' @
     ''        "key_assumptions": ["assumption1", "assumption2"]\<newline>'' @
     ''    }\<newline>'' @
     ''}''\<close>

definition FinanceAgent_parse_fallback :: pyval where
  "FinanceAgent_parse_fallback =
     PDict
       [(''unit_economics'',
           PDict [(''customer_acquisition_cost'', PStr ''To be calculated''),
                  (''lifetime_value'', PStr ''To be calculated''),
                  (''gross_margin'', PStr ''To be determined''),
                  (''contribution_margin'', PStr ''To be determined'')]),
        (''pricing_strategy'', PStr ''Competitive pricing based on market analysis''),
        (''revenue_projections'',
           PDict [(''month_1'', PStr ''Initial revenue''),
                  (''month_3'', PStr ''Growing revenue''),
                  (''month_6'', PStr ''Established revenue''),
                  (''year_1'', PStr ''Annual revenue projection'')]),
        (''cost_structure'',
           PDict [(''fixed_costs'', PStr ''Operational overhead''),
                  (''variable_costs'', PStr ''Cost of goods/services''),
                  (''cost_breakdown'', PStr ''To be detailed'')]),
        (''roi_model'',
           PDict [(''investment'', PStr ''To be calculated''),
                  (''expected_return'', PStr ''To be projected''),
                  (''roi'', PStr ''To be calculated''),
                  (''payback_period'', PStr ''To be determined''),
                  (''assumptions'', PList [PStr ''Market conditions'', PStr ''Execution success''])]),
        (''break_even_analysis'',
           PDict [(''break_even_point'', PStr ''To be calculated''),
                  (''break_even_timeline'', PStr ''To be determined''),
                  (''key_assumptions'', PList [PStr ''Revenue growth'', PStr ''Cost management''])])]"

definition FinanceAgent_minimal :: "exn + FinancialModel" where
  "FinanceAgent_minimal =
     call_schema FinancialModel
       (PDict
          [(''unit_economics'', PDict []),
           (''pricing_strategy'', PStr ''To be determined based on market research''),
           (''revenue_projections'', PDict []), (''cost_structure'', PDict []),
           (''roi_model'', PDict []), (''break_even_analysis'', PDict [])])"

definition FinanceAgent_analyze ::
    "llm \<Rightarrow> ClientInput \<Rightarrow> DiscoveryOutput \<Rightarrow> StrategyOutput \<Rightarrow> calls
       \<Rightarrow> (exn + FinancialModel) \<times> calls" where
  "FinanceAgent_analyze llm client_input discovery strategy log =
     (case generate llm (FinanceAgent_prompt client_input discovery strategy)
             FinanceAgent_system_prompt log of
        (Inl e, log') \<Rightarrow> (Inl e, log')
      | (Inr response, log') \<Rightarrow>
          (let data = extract_json response;
               data = (if \<not> truthy data then FinanceAgent_parse_fallback else data)
           in (case validate_and_fix_json data FinancialModel False of
                 Inr m \<Rightarrow> Inr m
               | Inl e \<Rightarrow> FinanceAgent_minimal), log'))"

section \<open>\<^verbatim>\<open>src/agents/risk.py\<close>\<close>

definition RiskAgent_system_prompt :: string where
  \<open>RiskAgent_system_prompt =
     ''You are a risk management and legal compliance consultant. Your role is to:\<newline>'' @
     ''1. Identify business risks\<newline>'' @
     ''2. Recommend mitigation strategies\<newline>'' @
     ''3. Flag compliance issues\<newline>'' @
     ''4. Highlight legal considerations\<newline>'' @
     ''\<newline>'' @
     ''Be thorough and consider both obvious and hidden risks.''\<close>

definition RiskAgent_prompt :: "ClientInput \<Rightarrow> DiscoveryOutput \<Rightarrow> StrategyOutput \<Rightarrow> string" where
  \<open>RiskAgent_prompt client_input discovery strategy =
     ''Conduct a comprehensive risk analysis:\<newline>'' @
     ''\<newline>'' @
     ''**Business**: '' @
     (business client_input) @
     ''\<newline>'' @
     ''**Industry**: '' @
     (industry client_input) @
     ''\<newline>'' @
     ''**Strategy**: '' @
     (recommendation strategy) @
     ''\<newline>'' @
     ''**Constraints**: '' @
     (constraints client_input) @
     ''\<newline>'' @
     ''**Business Model**: '' @
     (business_model discovery) @
     ''\<newline>'' @
     ''\<newline>'' @
     ''Please provide:\<newline>'' @
     ''1. List of key risks with severity and likelihood\<newline>'' @
     ''2. Mitigation strategies for each risk\<newline>'' @
     ''3. Compliance flags specific to the industry\<newline>'' @
     ''4. Legal considerations\<newline>'' @
     ''\<newline>'' @
     ''Format your response as JSON:\<newline>'' @
     ''{\<newline>'' @
     ''    "risks": [\<newline>'' @
     ''        {\<newline>'' @
     ''            "category": "Financial/Operational/Legal/Strategic",\<newline>'' @
     ''            "description": "Risk description",\<newline>'' @
     ''            "severity": "high/medium/low",\<newline>'' @
     ''            "likelihood": "high/medium/low",\<newline>'' @
     ''            "impact": "Impact description"\<newline>'' @
     ''        }\<newline>'' @
     ''    ],\<newline>'' @
     ''    "mitigations": [\<newline>'' @
     ''        {\<newline>'' @
     ''            "risk_id": "Reference to risk",\<newline>'' @
     ''            "strategy": "Mitigation strategy",\<newline>'' @
     ''            "owner": "Responsible party",\<newline>'' @
     ''            "timeline": "When to implement"\<newline>'' @
     ''        }\<newline>'' @
     ''    ],\<newline>'' @
     ''    "compliance_flags": ["flag1", "flag2", ...],\<newline>'' @
     ''    "legal_considerations": ["consideration1", "consideration2", ...]\<newline>'' @
     ''}''\<close>

definition RiskAgent_parse_fallback :: "ClientInput \<Rightarrow> StrategyOutput \<Rightarrow> pyval" where
  "RiskAgent_parse_fallback client_input strategy =
     PDict
       [(''risks'',
           PList
             [PDict [(''category'', PStr ''Strategic''),
                     (''description'', PStr ''Strategy execution risk''),
                     (''severity'', PStr ''medium''),
                     (''likelihood'', PStr ''medium''),
                     (''impact'', PStr ''May affect goal achievement'')]]),
        (''mitigations'',
           PList
             [PDict [(''risk_id'', PStr ''Strategy execution risk''),
                     (''strategy'', PStr ''Regular monitoring and adjustment''),
                     (''owner'', PStr ''Leadership team''),
                     (''timeline'', PStr ''Ongoing'')]]),
        (''compliance_flags'',
           PList [PStr (''Industry-specific regulations for '' @ industry client_input),
                  PStr ''Data privacy and security requirements'']),
        (''legal_considerations'',
           PList [PStr ''Contractual obligations'', PStr ''Regulatory compliance'',
                  PStr ''Intellectual property protection''])]"

definition RiskAgent_minimal :: "exn + RiskAnalysis" where
  "RiskAgent_minimal =
     call_schema RiskAnalysis
       (PDict
          [(''risks'', PList []), (''mitigations'', PList []),
           (''compliance_flags'', PList []), (''legal_considerations'', PList [])])"

definition RiskAgent_analyze ::
    "llm \<Rightarrow> ClientInput \<Rightarrow> DiscoveryOutput \<Rightarrow> StrategyOutput \<Rightarrow> calls
       \<Rightarrow> (exn + RiskAnalysis) \<times> calls" where
  "RiskAgent_analyze llm client_input discovery strategy log =
     (case generate llm (RiskAgent_prompt client_input discovery strategy)
             RiskAgent_system_prompt log of
        (Inl e, log') \<Rightarrow> (Inl e, log')
      | (Inr response, log') \<Rightarrow>
          (let data = extract_json response;
               data = (if \<not> truthy data then RiskAgent_parse_fallback client_input strategy
                       else data)
           in (case validate_and_fix_json data RiskAnalysis False of
                 Inr m \<Rightarrow> Inr m
               | Inl e \<Rightarrow> RiskAgent_minimal), log'))"

section \<open>\<^verbatim>\<open>src/utils/kpi.py\<close>\<close>

text \<open>The generator object: its one attribute is set at construction and never read.\<close>

record KPIGenerator =
  metrics :: pydict

text \<open>
  An absent argument is \<open>None\<close>; a model instance is always true, so
  \<^verbatim>\<open>if financial:\<close> asks whether the argument is there. The result is built by the
  \<^verbatim>\<open>KPIMetrics\<close> constructor, which validates its arguments.
\<close>

definition generate_from_agents ::
    "KPIGenerator \<Rightarrow> FinancialModel option \<Rightarrow> StrategyOutput option \<Rightarrow> ExecutionPlan option
       \<Rightarrow> exn + KPIMetrics" where
  "generate_from_agents self financial strategy execution =
     (let revenue_metrics = [];
          operational_metrics = [];
          customer_metrics = [];
          financial_metrics = [];
          targets = [];
          revenue_metrics =
            (case financial of
               None \<Rightarrow> revenue_metrics
             | Some f \<Rightarrow>
                 (let r = (if unit_economics f \<noteq> []
                           then dict_set revenue_metrics ''unit_economics'' (PDict (unit_economics f))
                           else revenue_metrics)
                  in if revenue_projections f \<noteq> []
                     then dict_set r ''projections'' (PDict (revenue_projections f)) else r));
          financial_metrics =
            (case financial of
               None \<Rightarrow> financial_metrics
             | Some f \<Rightarrow>
                 (let m = (if roi_model f \<noteq> []
                           then dict_set financial_metrics ''roi'' (PDict (roi_model f))
                           else financial_metrics)
                  in if break_even_analysis f \<noteq> []
                     then dict_set m ''break_even'' (PDict (break_even_analysis f)) else m));
          targets =
            (case strategy of
               None \<Rightarrow> targets
             | Some s \<Rightarrow>
                 if success_metrics s \<noteq> []
                 then dict_set targets ''strategic_metrics'' (PList (map PStr (success_metrics s)))
                 else targets);
          operational_metrics =
            (case execution of
               None \<Rightarrow> operational_metrics
             | Some e \<Rightarrow>
                 (let m1 = dict_set operational_metrics ''milestones_30''
                             (PInt (int (length (plan_30_days e))));
                      m2 = dict_set m1 ''milestones_60'' (PInt (int (length (plan_60_days e))));
                      m3 = dict_set m2 ''milestones_90'' (PInt (int (length (plan_90_days e))))
                  in if resource_requirements e \<noteq> []
                     then dict_set m3 ''resources'' (PDict (resource_requirements e)) else m3))
      in call_schema KPIMetrics
           (PDict
              [(''revenue_metrics'', PDict revenue_metrics),
               (''operational_metrics'', PDict operational_metrics),
               (''customer_metrics'', PDict customer_metrics),
               (''financial_metrics'', PDict financial_metrics),
               (''targets'', PDict targets)]))"

section \<open>\<^verbatim>\<open>src/utils/stitch.py\<close>\<close>

text \<open>
  The stitcher's \<^verbatim>\<open>sections\<close> dictionary: each \<^verbatim>\<open>add_\<close> method stores under its
  own key, so a key is absent or holds an artifact of its own kind.
\<close>

record sections =
  s_discovery :: "DiscoveryOutput option"
  s_market_analysis :: "MarketAnalysis option"
  s_strategy :: "StrategyOutput option"
  s_execution_plan :: "ExecutionPlan option"
  s_financial_model :: "FinancialModel option"
  s_risk_analysis :: "RiskAnalysis option"
  s_kpi_dashboard :: "KPIMetrics option"

definition ReportStitcher :: sections where
  "ReportStitcher =
     \<lparr>s_discovery = None, s_market_analysis = None, s_strategy = None, s_execution_plan = None,
      s_financial_model = None, s_risk_analysis = None, s_kpi_dashboard = None\<rparr>"

definition add_discovery :: "sections \<Rightarrow> DiscoveryOutput \<Rightarrow> sections" where
  "add_discovery self discovery = self\<lparr>s_discovery := Some discovery\<rparr>"

definition add_market_analysis :: "sections \<Rightarrow> MarketAnalysis \<Rightarrow> sections" where
  "add_market_analysis self market = self\<lparr>s_market_analysis := Some market\<rparr>"

definition add_strategy :: "sections \<Rightarrow> StrategyOutput \<Rightarrow> sections" where
  "add_strategy self strategy = self\<lparr>s_strategy := Some strategy\<rparr>"

definition add_execution_plan :: "sections \<Rightarrow> ExecutionPlan \<Rightarrow> sections" where
  "add_execution_plan self execution = self\<lparr>s_execution_plan := Some execution\<rparr>"

definition add_financial_model :: "sections \<Rightarrow> FinancialModel \<Rightarrow> sections" where
  "add_financial_model self financial = self\<lparr>s_financial_model := Some financial\<rparr>"

definition add_risk_analysis :: "sections \<Rightarrow> RiskAnalysis \<Rightarrow> sections" where
  "add_risk_analysis self risk = self\<lparr>s_risk_analysis := Some risk\<rparr>"

definition add_kpi_metrics :: "sections \<Rightarrow> KPIMetrics \<Rightarrow> sections" where
  "add_kpi_metrics self kpi = self\<lparr>s_kpi_dashboard := Some kpi\<rparr>"

definition problem_part :: "sections \<Rightarrow> string list" where
  "problem_part self =
     (case s_discovery self of
        None \<Rightarrow> []
      | Some discovery \<Rightarrow> [''**Problem Statement**: '' @ problem_statement discovery])"

definition recommendation_part :: "sections \<Rightarrow> string list" where
  "recommendation_part self =
     (case s_strategy self of
        None \<Rightarrow> []
      | Some strategy \<Rightarrow> [''**Strategic Recommendation**: '' @ recommendation strategy])"

definition roi_part :: "sections \<Rightarrow> string list" where
  "roi_part self =
     (case s_financial_model self of
        None \<Rightarrow> []
      | Some financial \<Rightarrow>
          if dict_has (roi_model financial) ''roi_model''
          then [''**Expected ROI**: '' @ py_str (dict_get (roi_model financial) ''roi'' (PStr ''N/A''))]
          else [])"

definition risk_part :: "sections \<Rightarrow> string list" where
  "risk_part self =
     (case s_risk_analysis self of
        None \<Rightarrow> []
      | Some risk \<Rightarrow>
          (case risks risk of
             [] \<Rightarrow> []
           | top_risk # rest \<Rightarrow>
               [''**Primary Risk**: '' @ py_str (dict_get top_risk ''description'' (PStr ''N/A''))]))"

definition generate_executive_summary :: "sections \<Rightarrow> string" where
  "generate_executive_summary self =
     join ''\<newline>\<newline>''
       (problem_part self @ recommendation_part self @ roi_part self @ risk_part self)"

record FullReport =
  executive_summary :: string
  discovery :: DiscoveryOutput
  market_analysis :: MarketAnalysis
  strategy :: StrategyOutput
  execution_plan :: ExecutionPlan
  financial_model :: FinancialModel
  risk_analysis :: RiskAnalysis
  kpi_dashboard :: KPIMetrics
  generated_at :: nat

text \<open>
  \<^verbatim>\<open>build_full_report\<close>: \<^verbatim>\<open>sections.get\<close> yields \<open>None\<close> for a missing
  section, and the \<^verbatim>\<open>FullReport\<close> constructor rejects \<open>None\<close> for a section.
  The timestamp is the clock's value at construction.
\<close>

definition build_full_report :: "nat \<Rightarrow> sections \<Rightarrow> exn + FullReport" where
  "build_full_report now self =
     (let executive_summary = generate_executive_summary self in
      case (s_discovery self, s_market_analysis self, s_strategy self, s_execution_plan self,
            s_financial_model self, s_risk_analysis self, s_kpi_dashboard self) of
        (Some d, Some m, Some s, Some e, Some f, Some r, Some k) \<Rightarrow>
          Inr \<lparr>executive_summary = executive_summary, discovery = d, market_analysis = m,
               strategy = s, execution_plan = e, financial_model = f, risk_analysis = r,
               kpi_dashboard = k, generated_at = now\<rparr>
      | _ \<Rightarrow> Inl ValidationError)"

section \<open>\<^verbatim>\<open>src/orchestrator.py\<close>\<close>

text \<open>
  \<^verbatim>\<open>generate_report\<close> runs the six stages in order, each result going into the
  stitcher, then derives the metrics and builds the report. An exception of any step
  ends the run there. The result comes with the stitcher and the call log as they are
  at the end.
\<close>

definition generate_report ::
    "llm \<Rightarrow> nat \<Rightarrow> KPIGenerator \<Rightarrow> sections \<Rightarrow> ClientInput \<Rightarrow> calls
       \<Rightarrow> (exn + FullReport) \<times> sections \<times> calls" where
  "generate_report llm now kpi_generator stitcher client_input log =
     (case DiscoveryAgent_analyze llm client_input log of
        (Inl e, log1) \<Rightarrow> (Inl e, stitcher, log1)
      | (Inr discovery', log1) \<Rightarrow>
     (let st1 = add_discovery stitcher discovery' in
      case MarketAgent_analyze llm client_input discovery' log1 of
        (Inl e, log2) \<Rightarrow> (Inl e, st1, log2)
      | (Inr market, log2) \<Rightarrow>
     (let st2 = add_market_analysis st1 market in
      case StrategyAgent_analyze llm client_input discovery' market log2 of
        (Inl e, log3) \<Rightarrow> (Inl e, st2, log3)
      | (Inr strategy', log3) \<Rightarrow>
     (let st3 = add_strategy st2 strategy' in
      case OpsAgent_analyze llm client_input discovery' strategy' log3 of
        (Inl e, log4) \<Rightarrow> (Inl e, st3, log4)
      | (Inr execution, log4) \<Rightarrow>
     (let st4 = add_execution_plan st3 execution in
      case FinanceAgent_analyze llm client_input discovery' strategy' log4 of
        (Inl e, log5) \<Rightarrow> (Inl e, st4, log5)
      | (Inr financial, log5) \<Rightarrow>
     (let st5 = add_financial_model st4 financial in
      case RiskAgent_analyze llm client_input discovery' strategy' log5 of
        (Inl e, log6) \<Rightarrow> (Inl e, st5, log6)
      | (Inr risk, log6) \<Rightarrow>
     (let st6 = add_risk_analysis st5 risk in
      case generate_from_agents kpi_generator (Some financial) (Some strategy') (Some execution) of
        Inl e \<Rightarrow> (Inl e, st6, log6)
      | Inr kpi \<Rightarrow>
     (let st7 = add_kpi_metrics st6 kpi in
      (build_full_report now st7, st7, log6)))))))))"

section \<open>\<^verbatim>\<open>src/main.py\<close>\<close>

text \<open>
  Standard input is the list of lines still to be read; \<^verbatim>\<open>input()\<close> takes the
  first and raises \<^verbatim>\<open>EOFError\<close> when there is none. \<^verbatim>\<open>sys.exit(1)\<close> after
  printing an error message is the outcome \<open>Exit\<close> with that message.
\<close>

datatype 'a outcome = Returned 'a | Exit nat string | EOFError

definition get_client_input :: "string list \<Rightarrow> ClientInput outcome" where
  "get_client_input stdin =
     (case stdin of
        [] \<Rightarrow> EOFError
      | l1 # in1 \<Rightarrow>
     (let business = strip l1 in
      if business = [] then Exit 1 ''Error: Business description is required''
      else case in1 of
        [] \<Rightarrow> EOFError
      | l2 # in2 \<Rightarrow>
     (let industry = strip l2 in
      if industry = [] then Exit 1 ''Error: Industry is required''
      else case in2 of
        [] \<Rightarrow> EOFError
      | l3 # in3 \<Rightarrow>
     (let goal = strip l3 in
      if goal = [] then Exit 1 ''Error: Business goal is required''
      else case in3 of
        [] \<Rightarrow> EOFError
      | l4 # in4 \<Rightarrow>
     (let constraints = strip l4 in
      case in4 of
        [] \<Rightarrow> EOFError
      | l5 # in5 \<Rightarrow>
     (let additional_context = strip l5 in
      Returned
        \<lparr>business = business, industry = industry, goal = goal,
         constraints = (if constraints \<noteq> [] then constraints else ''None specified''),
         additional_context = (if additional_context \<noteq> [] then Some additional_context
                               else None)\<rparr>))))))"

text \<open>
  \<^verbatim>\<open>main\<close>, up to the report: the client input is collected, then a fresh
  orchestrator generates the report. Every exception is reported and ends the run with
  status 1; the report of an exception is its own text after the word \<^verbatim>\<open>Error\<close>,
  of which the model keeps the text of \<^verbatim>\<open>EOFError\<close> only. (Rendering and saving
  the report follow; they make no generation call.) The result comes with the log of
  the generation calls made.
\<close>

definition main :: "llm \<Rightarrow> nat \<Rightarrow> string list \<Rightarrow> FullReport outcome \<times> calls" where
  "main llm now stdin =
     (case get_client_input stdin of
        Exit c msg \<Rightarrow> (Exit c msg, [])
      | EOFError \<Rightarrow> (Exit 1 ''Error: EOF when reading a line'', [])
      | Returned client_input \<Rightarrow>
          (case generate_report llm now \<lparr>metrics = []\<rparr> ReportStitcher client_input [] of
             (Inl e, st, log) \<Rightarrow> (Exit 1 ''Error'', log)
           | (Inr report, st, log) \<Rightarrow> (Returned report, log)))"

section \<open>Notions used to state the properties\<close>

subsection \<open>The declared shape of a field\<close>

text \<open>
  A value has the shape an annotation declares: a string, a list whose items have the
  item shape, a dictionary whose values have the value shape, a string or \<open>None\<close>.
\<close>

fun conforms :: "ann \<Rightarrow> pyval \<Rightarrow> bool" where
  "conforms AStr v = is_str v"
| "conforms AAny v = True"
| "conforms ANoneType v = (v = PNone)"
| "conforms (AList a) v = (case v of PList xs \<Rightarrow> list_all (conforms a) xs | _ \<Rightarrow> False)"
| "conforms (ADict k a) v =
     (case v of
        PDict kvs \<Rightarrow> list_all (\<lambda>kv. conforms k (PStr (fst kv)) \<and> conforms a (snd kv)) kvs
      | _ \<Rightarrow> False)"
| "conforms AOptionalStr v = (v = PNone \<or> is_str v)"

text \<open>
  A mapping is accepted by a field table when every field it supplies has the declared
  shape and every field it does not supply has a default.
\<close>

definition accepts :: "(string \<times> field_info) list \<Rightarrow> pydict \<Rightarrow> bool" where
  "accepts flds d =
     list_all
       (\<lambda>fld. case map_of d (fst fld) of
                 Some v \<Rightarrow> conforms (annotation (snd fld)) v
               | None \<Rightarrow> dflt (snd fld) \<noteq> PUndefined)
       flds"


subsection \<open>Balanced braces, by counting depth\<close>






text \<open>
  What the pattern of the third step does after an opening brace, as a scanner with two
  states (outside and inside a nested pair): it yields what follows the closing brace, and
  gives up at a brace opened inside a nested pair.
\<close>

fun scan2 :: "bool \<Rightarrow> string \<Rightarrow> string option" where
  "scan2 inner [] = None"
| "scan2 inner (c # cs) =
     (if c = CHR ''}'' then (if inner then scan2 False cs else Some cs)
      else if c = CHR ''{'' then (if inner then None else scan2 True cs)
      else scan2 inner cs)"



section \<open>Example inputs\<close>


text \<open>A generation client that always returns the text \<^verbatim>\<open>not json at all\<close>.\<close>

definition not_json_stub :: llm where
  "not_json_stub = (\<lambda>n prompt system_prompt. Inr ''not json at all'')"

text \<open>A finance artifact whose ROI model carries an \<^verbatim>\<open>roi\<close> entry.\<close>

definition example_finance :: FinancialModel where
  "example_finance =
     \<lparr>unit_economics = [], pricing_strategy = ''Tiered'', revenue_projections = [],
      cost_structure = [], roi_model = [(''roi'', PStr ''25%'')], break_even_analysis = []\<rparr>"








section \<open>Properties of the metrics derivation\<close>

lemma those_pairs_any:
  "those (map (\<lambda>(k, x). map_option (Pair k) (v_any x)) kvs) = Some kvs"
  by (induction kvs) (auto simp: v_any_def)

lemma v_dict_any_PDict: "v_dict v_any (PDict d) = Some d"
  by (simp add: v_dict_def those_pairs_any)

lemma KPIMetrics_of_dicts:
  "call_schema KPIMetrics
     (PDict [(''revenue_metrics'', PDict a), (''operational_metrics'', PDict b),
             (''customer_metrics'', PDict c), (''financial_metrics'', PDict d),
             (''targets'', PDict e)]) =
   Inr \<lparr>revenue_metrics = a, operational_metrics = b, customer_metrics = c,
        financial_metrics = d, targets = e\<rparr>"
  by (simp add: call_schema_def KPIMetrics_def field_def v_dict_any_PDict)


text \<open>
  Claim C7. The metrics are a function of the three artifacts alone: the result does
  not depend on the generator object, so two calls on identical artifacts give identical
  metrics; the function takes no generation client and no call log, so it makes no
  generation call; it always returns (the constructor accepts what it is given), and
  with every contribution missing it returns the metrics whose mappings are all empty.
\<close>

theorem kpi_metrics_pure:
  "generate_from_agents self fin strat exe = generate_from_agents self' fin strat exe
   \<and> (\<exists>k. generate_from_agents self fin strat exe = Inr k)
   \<and> generate_from_agents self None None None =
       Inr \<lparr>revenue_metrics = [], operational_metrics = [], customer_metrics = [],
            financial_metrics = [], targets = []\<rparr>"
  by (simp add: generate_from_agents_def Let_def KPIMetrics_of_dicts)

text \<open>
  Claim C10. Whatever the three arguments are (an artifact or \<open>None\<close> each), the
  metrics returned have an empty \<^verbatim>\<open>customer_metrics\<close> mapping.
\<close>

theorem customer_metrics_always_empty:
  "\<exists>k. generate_from_agents self fin strat exe = Inr k \<and> customer_metrics k = []"
  by (simp add: generate_from_agents_def Let_def KPIMetrics_of_dicts)

section \<open>Properties of the extractor\<close>

text \<open>
  Claim C8. The extractor does not always return a dictionary or \<open>None\<close>: its first
  step returns whatever the whole text parses to, so on the text \<^verbatim>\<open>[1, 2]\<close> it
  returns a list.
\<close>

theorem extract_json_returns_list:
  "extract_json ''[1, 2]'' = PList [PInt 1, PInt 2]"
  by code_simp













lemma scan2_shorter: "scan2 b cs = Some rest \<Longrightarrow> length rest < length cs"
  by (induction cs arbitrary: b) (fastforce split: if_splits)+









section \<open>Properties of the executive summary\<close>

text \<open>
  Claim C6. The summary does not carry the ROI sentence whenever the finance artifact
  has an ROI entry: the sentence is added when the ROI model has the key
  \<^verbatim>\<open>roi_model\<close>, not the key \<^verbatim>\<open>roi\<close> that is then read. With a finance artifact
  whose ROI model is \<^verbatim>\<open>{"roi": "25%"}\<close> and no other section, the summary is empty.
\<close>

theorem executive_summary_omits_roi:
  "dict_has (roi_model example_finance) ''roi''
   \<and> roi_part (ReportStitcher\<lparr>s_financial_model := Some example_finance\<rparr>) = []
   \<and> generate_executive_summary (ReportStitcher\<lparr>s_financial_model := Some example_finance\<rparr>) = []"
  by code_simp

section \<open>Properties of the stages\<close>





















section \<open>Properties of the validator\<close>
















lemma map_of_filter_keys:
  "k \<in> K \<Longrightarrow> map_of (filter (\<lambda>(k', v). k' \<in> K) d) k = map_of d k"
  by (induction d) auto

lemma field_filter_keys:
  "name \<in> K \<Longrightarrow> field (filter (\<lambda>(k', v). k' \<in> K) d) name val x = field d name val x"
  by (simp add: field_def map_of_filter_keys)

lemma DiscoveryOutput_declared_only:
  "construct DiscoveryOutput (filter (\<lambda>(k, v). k \<in> set (map fst (model_fields DiscoveryOutput))) d)
     = construct DiscoveryOutput d"
proof -
  have "construct DiscoveryOutput (filter (\<lambda>(k, v). k \<in> K) d) = construct DiscoveryOutput d"
    if "set (map fst (model_fields DiscoveryOutput)) \<subseteq> K" for K
    using that by (simp add: DiscoveryOutput_def field_filter_keys)
  then show ?thesis
    by blast
qed

lemma MarketAnalysis_declared_only:
  "construct MarketAnalysis (filter (\<lambda>(k, v). k \<in> set (map fst (model_fields MarketAnalysis))) d)
     = construct MarketAnalysis d"
proof -
  have "construct MarketAnalysis (filter (\<lambda>(k, v). k \<in> K) d) = construct MarketAnalysis d"
    if "set (map fst (model_fields MarketAnalysis)) \<subseteq> K" for K
    using that by (simp add: MarketAnalysis_def field_filter_keys)
  then show ?thesis
    by blast
qed

lemma StrategyOutput_declared_only:
  "construct StrategyOutput (filter (\<lambda>(k, v). k \<in> set (map fst (model_fields StrategyOutput))) d)
     = construct StrategyOutput d"
proof -
  have "construct StrategyOutput (filter (\<lambda>(k, v). k \<in> K) d) = construct StrategyOutput d"
    if "set (map fst (model_fields StrategyOutput)) \<subseteq> K" for K
    using that by (simp add: StrategyOutput_def field_filter_keys)
  then show ?thesis
    by blast
qed

lemma ExecutionPlan_declared_only:
  "construct ExecutionPlan (filter (\<lambda>(k, v). k \<in> set (map fst (model_fields ExecutionPlan))) d)
     = construct ExecutionPlan d"
proof -
  have "construct ExecutionPlan (filter (\<lambda>(k, v). k \<in> K) d) = construct ExecutionPlan d"
    if "set (map fst (model_fields ExecutionPlan)) \<subseteq> K" for K
    using that by (simp add: ExecutionPlan_def field_filter_keys)
  then show ?thesis
    by blast
qed

lemma FinancialModel_declared_only:
  "construct FinancialModel (filter (\<lambda>(k, v). k \<in> set (map fst (model_fields FinancialModel))) d)
     = construct FinancialModel d"
proof -
  have "construct FinancialModel (filter (\<lambda>(k, v). k \<in> K) d) = construct FinancialModel d"
    if "set (map fst (model_fields FinancialModel)) \<subseteq> K" for K
    using that by (simp add: FinancialModel_def field_filter_keys)
  then show ?thesis
    by blast
qed

lemma RiskAnalysis_declared_only:
  "construct RiskAnalysis (filter (\<lambda>(k, v). k \<in> set (map fst (model_fields RiskAnalysis))) d)
     = construct RiskAnalysis d"
proof -
  have "construct RiskAnalysis (filter (\<lambda>(k, v). k \<in> K) d) = construct RiskAnalysis d"
    if "set (map fst (model_fields RiskAnalysis)) \<subseteq> K" for K
    using that by (simp add: RiskAnalysis_def field_filter_keys)
  then show ?thesis
    by blast
qed


lemma validator_raises_when_unrepairable:
  assumes acc: "\<And>d. (construct S d = None) = (\<not> accepts (model_fields S) d)"
      and decl: "\<And>d. construct S (filter (\<lambda>(k, v). k \<in> set (map fst (model_fields S))) d)
                        = construct S d"
      and "\<not> accepts (model_fields S) d" "\<not> accepts (model_fields S) (fix_common_issues d S)"
  shows "validate_and_fix_json (PDict d) S False = Inl ValidationError"
  using assms(3,4) acc [of d] acc [of "fix_common_issues d S"] decl [of d]
  by (simp add: validate_and_fix_json_def call_schema_def)






section \<open>Properties of the entry point\<close>

lemma dropWhile_rev_keeps:
  "dropWhile P (rev (dropWhile P (rev (dropWhile P s)))) = rev (dropWhile P (rev (dropWhile P s)))"
  by (metis (no_types, lifting) ext Nil_is_rev_conv dropWhile_eq_Nil_conv
    dropWhile_eq_self_iff dropWhile_last hd_dropWhile hd_rev last_rev)

lemma strip_idem: "strip (strip s) = strip s"
  by (simp add: strip_def dropWhile_rev_keeps dropWhile_idem)

lemma strip_None_specified: "strip ''None specified'' = ''None specified''"
  by code_simp

text \<open>
  Claim C9, as stated, fails. With business, industry and goal given and the
  constraints left empty, \<^verbatim>\<open>get_client_input\<close> does not abort: it returns a client
  input whose constraints are \<^verbatim>\<open>None specified\<close>.
\<close>

theorem empty_constraints_do_not_abort:
  "get_client_input [''Acme'', ''Retail'', ''Grow'', '''', ''''] =
     Returned \<lparr>business = ''Acme'', industry = ''Retail'', goal = ''Grow'',
               constraints = ''None specified'', additional_context = None\<rparr>"
  by code_simp

text \<open>
  Claim C9, amended. When the business, the industry or the goal is empty after
  trimming, the run ends with status 1 and an error message, and no generation call has
  been made. When the three are non-empty, the client input is returned, with empty
  constraints replaced by \<^verbatim>\<open>None specified\<close>. So every client input that is
  returned (and only such a one reaches a stage) has its four required fields non-empty
  after trimming.
\<close>

theorem client_input_gate:
  "(strip b = [] \<or> strip i = [] \<or> strip g = [] \<longrightarrow>
      (\<exists>msg. main llm now (b # i # g # c # a # rest) = (Exit 1 msg, [])))
   \<and> (strip b \<noteq> [] \<and> strip i \<noteq> [] \<and> strip g \<noteq> [] \<longrightarrow>
      get_client_input (b # i # g # c # a # rest) =
        Returned \<lparr>business = strip b, industry = strip i, goal = strip g,
                  constraints = (if strip c \<noteq> [] then strip c else ''None specified''),
                  additional_context = (if strip a \<noteq> [] then Some (strip a) else None)\<rparr>)
   \<and> (get_client_input stdin = Returned ci \<longrightarrow>
      strip (business ci) \<noteq> [] \<and> strip (industry ci) \<noteq> [] \<and> strip (goal ci) \<noteq> []
      \<and> strip (constraints ci) \<noteq> [])"
proof -
  have abort: "\<exists>msg. main llm now (b # i # g # c # a # rest) = (Exit 1 msg, [])"
    if "strip b = [] \<or> strip i = [] \<or> strip g = []"
    using that by (auto simp: main_def get_client_input_def Let_def)
  have proceed: "get_client_input (b # i # g # c # a # rest) =
        Returned \<lparr>business = strip b, industry = strip i, goal = strip g,
                  constraints = (if strip c \<noteq> [] then strip c else ''None specified''),
                  additional_context = (if strip a \<noteq> [] then Some (strip a) else None)\<rparr>"
    if "strip b \<noteq> [] \<and> strip i \<noteq> [] \<and> strip g \<noteq> []"
    using that by (simp add: get_client_input_def Let_def)
  have filled: "strip (business ci) \<noteq> [] \<and> strip (industry ci) \<noteq> []
      \<and> strip (goal ci) \<noteq> [] \<and> strip (constraints ci) \<noteq> []"
    if "get_client_input stdin = Returned ci"
    using that
    by (auto simp: get_client_input_def Let_def strip_idem strip_None_specified
        split: list.splits if_splits)
  show ?thesis
    using abort proceed filled by blast
qed

text \<open>
  Witness for C9: an industry of two blanks aborts the run before any generation call;
  empty constraints are replaced.
\<close>

theorem client_input_gate_witness:
  "(\<exists>msg. main not_json_stub 0 [''Acme'', ''  '', ''Grow'', ''Cash'', ''''] = (Exit 1 msg, []))
   \<and> get_client_input [''Acme'', ''Retail'', ''Grow'', '''', ''''] =
        Returned \<lparr>business = ''Acme'', industry = ''Retail'', goal = ''Grow'',
                  constraints = ''None specified'', additional_context = None\<rparr>
   \<and> strip (constraints \<lparr>business = ''Acme'', industry = ''Retail'', goal = ''Grow'',
                  constraints = ''None specified'', additional_context = None\<rparr>) \<noteq> []"
proof -
  have s: "strip ''Acme'' = ''Acme''" "strip ''  '' = []" "strip ''Retail'' = ''Retail''"
    "strip ''Grow'' = ''Grow''" "strip [] = []" "strip ''Cash'' = ''Cash''"
    by code_simp+
  have g: "get_client_input [''Acme'', ''Retail'', ''Grow'', '''', ''''] =
        Returned \<lparr>business = ''Acme'', industry = ''Retail'', goal = ''Grow'',
                  constraints = ''None specified'', additional_context = None\<rparr>"
    using client_input_gate [of "''Acme''" "''Retail''" "''Grow''" not_json_stub 0 "''''" "''''" "[]"]
    by (simp add: s)
  show ?thesis
    using client_input_gate [of "''Acme''" "''  ''" "''Grow''" not_json_stub 0 "''Cash''" "''''" "[]"
        "[''Acme'', ''Retail'', ''Grow'', '''', '''']"
        "\<lparr>business = ''Acme'', industry = ''Retail'', goal = ''Grow'',
                  constraints = ''None specified'', additional_context = None\<rparr>"] g
    by (simp add: s)
qed

end
